theory Spec2Isabelle
  imports Complex_Main
begin

section \<open>Python and NumPy primitives\<close>

text \<open>
  Exceptions of the Python program are values: every function that can raise returns
  \<open>error + 'a\<close>, with \<open>Inl\<close> for the exception that leaves the function.
\<close>

datatype error =
    ValueError
  | KeyError
  | IndexError
  | AxisError
  | AttributeError
  | ZeroDivisionError
  | UnboundLocalError
  | FileNotFoundError
  | OverflowError

definition bind_err :: "error + 'a \<Rightarrow> ('a \<Rightarrow> error + 'b) \<Rightarrow> error + 'b" where
  "bind_err r f = (case r of Inl e \<Rightarrow> Inl e | Inr v \<Rightarrow> f v)"

text \<open>A loop that appends one computed element per iteration; the first exception ends it.\<close>

fun collect :: "('i \<Rightarrow> error + 'a) \<Rightarrow> 'i list \<Rightarrow> error + 'a list" where
  "collect f [] = Inr []"
| "collect f (i # is) =
     (case f i of
        Inl e \<Rightarrow> Inl e
      | Inr v \<Rightarrow> (case collect f is of Inl e \<Rightarrow> Inl e | Inr vs \<Rightarrow> Inr (v # vs)))"

text \<open>
  \<open>a[k]\<close> along the first axis of a NumPy array or a torch tensor of \<open>n\<close> rows: an
  index in \<open>[0, n)\<close> reads row \<open>k\<close>, an index in \<open>[-n, 0)\<close> wraps around and reads row
  \<open>n + k\<close>, any other index raises IndexError.
\<close>

definition np_index :: "'a list \<Rightarrow> int \<Rightarrow> error + 'a" where
  "np_index a k =
     (let n = int (length a) in
      if 0 \<le> k \<and> k < n then Inr (a ! nat k)
      else if - n \<le> k \<and> k < 0 then Inr (a ! nat (n + k))
      else Inl IndexError)"

text \<open>
  \<open>a[lo:hi]\<close> along the first axis: both bounds are taken from the end when negative
  and clipped to \<open>[0, n]\<close>; a slice never raises.
\<close>

definition slice_bound :: "nat \<Rightarrow> int \<Rightarrow> nat" where
  "slice_bound n k = (if k < 0 then nat (max 0 (int n + k)) else min n (nat k))"

definition py_slice :: "'a list \<Rightarrow> int \<Rightarrow> int \<Rightarrow> 'a list" where
  "py_slice a lo hi =
     (let l = slice_bound (length a) lo; h = slice_bound (length a) hi
      in take (h - l) (drop l a))"

text \<open>\<open>range(lo, hi)\<close> is \<open>[lo..hi - 1]\<close>; it is empty when \<open>hi \<le> lo\<close>.\<close>

definition py_range :: "int \<Rightarrow> int \<Rightarrow> int list" where
  "py_range lo hi = [lo..hi - 1]"


section \<open>Double-precision floats\<close>

text \<open>
  A finite Python float is a double: the number \<open>mant * 2 ^ expo\<close> with
  \<open>\<bar>mant\<bar> < 2 ^ 53\<close>. A float literal such as \<open>0.35\<close> denotes the double nearest to
  the decimal.
\<close>

datatype double = Double (mant: int) (expo: int)


text \<open>The number of binary digits of a positive integer (\<open>int.bit_length\<close>).\<close>

function bit_length :: "int \<Rightarrow> int" where
  "bit_length n = (if n \<le> 0 then 0 else 1 + bit_length (n div 2))"
  by pat_completeness auto
termination
  by (relation "measure nat") auto

declare bit_length.simps [simp del]

text \<open>
  The double nearest to \<open>m * 2 ^ e\<close>, ties going to the even mantissa
  (round-to-nearest-even, the rounding of every float operation): the mantissa keeps 53
  digits, and no exponent goes below \<open>-1074\<close>, that of the subnormal doubles. A result
  of magnitude \<open>2 ^ 1024\<close> or more is no finite double: the conversion of an \<open>int\<close>
  raises OverflowError there, and a product is \<open>inf\<close>, on which \<open>int(\<dots>)\<close> raises
  OverflowError; the only product of the program goes straight into \<open>int(\<dots>)\<close>, so the
  model raises at the rounding in both cases.
\<close>

definition round_mantissa :: "int \<Rightarrow> int \<Rightarrow> int \<times> int" where
  "round_mantissa m e =
     (let a = \<bar>m\<bar>;
          k = max (bit_length a - 53) (- 1074 - e)
      in if k \<le> 0 then (m, e)
         else
           let q = a div 2 ^ nat k;
               r = a mod 2 ^ nat k;
               half = 2 ^ (nat k - 1);
               q' = (if half < r \<or> (r = half \<and> odd q) then q + 1 else q)
           in (sgn m * q', e + k))"

definition round_to_double :: "int \<Rightarrow> int \<Rightarrow> error + double" where
  "round_to_double m e =
     (case round_mantissa m e of
        (m', e') \<Rightarrow>
          if 1024 < bit_length \<bar>m'\<bar> + e' then Inl OverflowError
          else Inr (Double m' e'))"

text \<open>\<open>float(n)\<close> of an \<open>int\<close>, as \<open>n * x\<close> applies it to \<open>n\<close> for a float \<open>x\<close>.\<close>

definition float_of_int :: "int \<Rightarrow> error + double" where
  "float_of_int n = round_to_double n 0"

text \<open>The product of two floats: the exact product, rounded.\<close>

definition float_mul :: "double \<Rightarrow> double \<Rightarrow> error + double" where
  "float_mul x y = round_to_double (mant x * mant y) (expo x + expo y)"

text \<open>\<open>int(x)\<close> of a float: truncation toward zero.\<close>

definition py_int :: "double \<Rightarrow> int" where
  "py_int x =
     (if 0 \<le> expo x then mant x * 2 ^ nat (expo x)
      else sgn (mant x) * (\<bar>mant x\<bar> div 2 ^ nat (- expo x)))"


section \<open>DataGenerator: the window generator\<close>

text \<open>
  The fields of \<open>DataGenerator\<close>. \<open>mode_len\<close> is the dict with the keys \<open>train\<close>,
  \<open>validate\<close> and \<open>test\<close>. \<open>val_ratio\<close> is a finite float.
\<close>

record DataGenerator =
  day_timesteps :: int
  serial_len :: int
  daily_len :: int
  weekly_len :: int
  train_test_dates :: "string list"
  val_ratio :: double
  start_idx :: int
  mode_len :: "string \<rightharpoonup> int"

text \<open>
  The indices \<open>get_periodic_skip_seq\<close> reads, in the order of its loop (before the
  list is reversed): \<open>idx - p_steps * d\<close> for \<open>d = 1, \<dots>, daily_len\<close> with
  \<open>p_steps = daily_len * day_timesteps\<close>, and the same with weeks.
\<close>

definition p_steps :: "('z) DataGenerator_scheme \<Rightarrow> string \<Rightarrow> int" where
  "p_steps g p =
     (if p = ''daily'' then daily_len g * day_timesteps g
      else weekly_len g * day_timesteps g * 7)"

definition skip_reads :: "('z) DataGenerator_scheme \<Rightarrow> int \<Rightarrow> string \<Rightarrow> int list" where
  "skip_reads g idx p =
     (if p = ''daily'' then map (\<lambda>d. idx - p_steps g p * d) [1..daily_len g]
      else map (\<lambda>w. idx - p_steps g p * w) [1..weekly_len g])"

definition get_periodic_skip_seq ::
  "('z) DataGenerator_scheme \<Rightarrow> 'a list \<Rightarrow> int \<Rightarrow> string \<Rightarrow> error + 'a list" where
  "get_periodic_skip_seq g data idx p =
     bind_err (collect (np_index data) (skip_reads g idx p)) (\<lambda>p_seq. Inr (rev p_seq))"

text \<open>The first target index of \<open>get_feats\<close>.\<close>

definition feats_start_idx :: "('z) DataGenerator_scheme \<Rightarrow> int" where
  "feats_start_idx g =
     max (serial_len g) (max (daily_len g * day_timesteps g) (weekly_len g * day_timesteps g * 7))"

text \<open>The indices the slice \<open>data[i - serial_len : i]\<close> reads.\<close>

definition serial_reads :: "('z) DataGenerator_scheme \<Rightarrow> nat \<Rightarrow> int \<Rightarrow> int list" where
  "serial_reads g n i =
     map int [slice_bound n (i - serial_len g) ..< slice_bound n i]"

text \<open>One iteration of the loop of \<open>get_feats\<close>: the four elements appended for \<open>i\<close>.\<close>

definition feats_at ::
  "('z) DataGenerator_scheme \<Rightarrow> 'a list \<Rightarrow> int \<Rightarrow> error + ('a list \<times> 'a list \<times> 'a list \<times> 'a)" where
  "feats_at g data i =
     (let serial = py_slice data (i - serial_len g) i in
      bind_err (get_periodic_skip_seq g data i ''daily'') (\<lambda>daily.
      bind_err (get_periodic_skip_seq g data i ''weekly'') (\<lambda>weekly.
      bind_err (np_index data i) (\<lambda>y.
      Inr (serial, daily, weekly, y)))))"

text \<open>
  The target indices \<open>get_feats\<close> emits a sample for. The four arrays it returns
  (\<open>np.array\<close> of the collected lists) are modelled by the lists themselves, one entry
  per sample.
\<close>

definition feats_indices :: "('z) DataGenerator_scheme \<Rightarrow> 'a list \<Rightarrow> int list" where
  "feats_indices g data = py_range (feats_start_idx g) (int (length data))"

definition get_feats ::
  "('z) DataGenerator_scheme \<Rightarrow> 'a list \<Rightarrow>
     error + ('a list list \<times> 'a list list \<times> 'a list list \<times> 'a list)" where
  "get_feats g data =
     bind_err (collect (feats_at g data) (feats_indices g data)) (\<lambda>samples.
       Inr (map (\<lambda>(s, d, w, y). s) samples,
            map (\<lambda>(s, d, w, y). d) samples,
            map (\<lambda>(s, d, w, y). w) samples,
            map (\<lambda>(s, d, w, y). y) samples))"

text \<open>A generator with the given window parameters; the remaining fields play no part
  in the windows.\<close>

definition window_gen :: "int \<Rightarrow> int \<Rightarrow> int \<Rightarrow> int \<Rightarrow> DataGenerator" where
  "window_gen s d w p =
     \<lparr>day_timesteps = p, serial_len = s, daily_len = d, weekly_len = w,
      train_test_dates = [], val_ratio = Double 0 0, start_idx = 0, mode_len = Map.empty\<rparr>"

text \<open>
  The time offsets (target index minus read index) of one sample, in the order of the
  concatenated window: weekly, then daily, then serial, each in chronological order.
\<close>

definition feats_offsets :: "('z) DataGenerator_scheme \<Rightarrow> nat \<Rightarrow> int \<Rightarrow> int list" where
  "feats_offsets g n i =
     map (\<lambda>r. i - r)
       (rev (skip_reads g i ''weekly'') @ rev (skip_reads g i ''daily'') @ serial_reads g n i)"


section \<open>DataGenerator: split planning\<close>

text \<open>\<open>dict[key]\<close> raises KeyError for a missing key.\<close>

definition lookup :: "('k \<rightharpoonup> 'v) \<Rightarrow> 'k \<Rightarrow> error + 'v" where
  "lookup m k = (case m k of None \<Rightarrow> Inl KeyError | Some v \<Rightarrow> Inr v)"

text \<open>\<open>list.index(x)\<close>: the position of the first occurrence, ValueError when absent.\<close>

fun index_of :: "'a list \<Rightarrow> 'a \<Rightarrow> error + int" where
  "index_of [] x = Inl ValueError"
| "index_of (y # ys) x =
     (if y = x then Inr 0 else bind_err (index_of ys x) (\<lambda>i. Inr (i + 1)))"

text \<open>
  \<open>pd.date_range(str(year)+'0101', str(year)+'1231').strftime('%Y%m%d').tolist()\<close>:
  the days of the calendar year in order, each written as year, two-digit month and
  two-digit day. The model is for four-digit years, where \<open>%Y\<close> and \<open>str(year)\<close>
  agree.
\<close>

definition digit_char :: "nat \<Rightarrow> char" where
  "digit_char n = ''0123456789'' ! (n mod 10)"

fun str_nat_aux :: "nat \<Rightarrow> nat \<Rightarrow> string \<Rightarrow> string" where
  "str_nat_aux 0 n acc = acc"
| "str_nat_aux (Suc fuel) n acc =
     (if n < 10 then digit_char n # acc
      else str_nat_aux fuel (n div 10) (digit_char n # acc))"

definition str_nat :: "nat \<Rightarrow> string" where
  "str_nat n = str_nat_aux (Suc n) n []"

definition pad2 :: "nat \<Rightarrow> string" where
  "pad2 n = [digit_char (n div 10), digit_char n]"

definition leap_year :: "nat \<Rightarrow> bool" where
  "leap_year y = (y mod 4 = 0 \<and> (y mod 100 \<noteq> 0 \<or> y mod 400 = 0))"

definition month_lengths :: "nat \<Rightarrow> nat list" where
  "month_lengths y =
     [31, if leap_year y then 29 else 28, 31, 30, 31, 30, 31, 31, 30, 31, 30, 31]"

definition date_range :: "nat \<Rightarrow> string list" where
  "date_range year =
     concat (map (\<lambda>(m, len). map (\<lambda>d. str_nat year @ pad2 m @ pad2 d) [1..<Suc len])
                 (zip [1..<13] (month_lengths year)))"

text \<open>
  \<open>date2len\<close>. In \<open>int(train_len * self.val_ratio)\<close> the \<open>int\<close> \<open>train_len\<close> is
  converted to a float, the product is a float, and \<open>int\<close> truncates it.
\<close>

definition date2len ::
  "('z) DataGenerator_scheme \<Rightarrow> nat \<Rightarrow> error + (int \<times> (string \<rightharpoonup> int))" where
  "date2len g year =
     bind_err (np_index (train_test_dates g) 0) (\<lambda>d0.
     bind_err (index_of (date_range year) (str_nat year @ d0)) (\<lambda>train_s_idx.
     bind_err (np_index (train_test_dates g) 1) (\<lambda>d1.
     bind_err (index_of (date_range year) (str_nat year @ d1)) (\<lambda>train_e_idx.
     let train_len0 = (train_e_idx + 1 - train_s_idx) * day_timesteps g in
     bind_err (float_of_int train_len0) (\<lambda>train_len_float.
     bind_err (float_mul train_len_float (val_ratio g)) (\<lambda>product.
     let validate_len = py_int product;
         train_len = train_len0 - validate_len
     in
     bind_err (np_index (train_test_dates g) 2) (\<lambda>d2.
     bind_err (index_of (date_range year) (str_nat year @ d2)) (\<lambda>test_s_idx.
     bind_err (np_index (train_test_dates g) 3) (\<lambda>d3.
     bind_err (index_of (date_range year) (str_nat year @ d3)) (\<lambda>test_e_idx.
     let test_len = (test_e_idx + 1 - test_s_idx) * day_timesteps g
     in Inr (train_s_idx,
             [''train'' \<mapsto> train_len, ''validate'' \<mapsto> validate_len, ''test'' \<mapsto> test_len])))))))))))"

text \<open>
  The constructor: \<open>day_timesteps = 24 // dt\<close> (floor division, ZeroDivisionError for
  \<open>dt = 0\<close>), the window lengths, and the split plan of \<open>date2len\<close>.
\<close>

definition DataGenerator_init ::
  "int \<Rightarrow> int \<times> int \<times> int \<Rightarrow> string list \<Rightarrow> double \<Rightarrow> nat \<Rightarrow> error + DataGenerator" where
  "DataGenerator_init dt obs_len dates ratio year =
     (if dt = 0 then Inl ZeroDivisionError
      else
        (case obs_len of (s, d, w) \<Rightarrow>
           let g = \<lparr>day_timesteps = 24 div dt, serial_len = s, daily_len = d, weekly_len = w,
                    train_test_dates = dates, val_ratio = ratio, start_idx = 0,
                    mode_len = Map.empty\<rparr>
           in bind_err (date2len g year) (\<lambda>(si, ml). Inr (g\<lparr>start_idx := si, mode_len := ml\<rparr>))))"


section \<open>EMSDataset: the sample store and the flow-window resolver\<close>

text \<open>
  An array whose first axis is a list of rows, with the number of its dimensions
  (\<open>len(a.shape)\<close>), which \<open>prepare_xy\<close> inspects.
\<close>

record 'a ndarray =
  ndim :: nat
  rows :: "'a list"

text \<open>The dict \<open>inputs\<close> handed to the dataset; \<open>flow\<close> is the optional key.\<close>

record ('x, 'm, 'f) feat_dict =
  serial :: "'x list ndarray"
  daily :: "'x list ndarray"
  weekly :: "'x list ndarray"
  serial_meta :: "'m list ndarray"
  daily_meta :: "'m list ndarray"
  weekly_meta :: "'m list ndarray"
  flow :: "'f list option"

text \<open>The dict \<open>self.inputs\<close> built by \<open>prepare_xy\<close>.\<close>

record ('x, 'm, 'f) xdict =
  x_seq :: "'x list list"
  meta_seq :: "'m list list"
  x_flow :: "'f list option"

record ('x, 'm, 'f, 'y) EMSDataset =
  ds_serial_len :: int
  ds_daily_len :: int
  ds_weekly_len :: int
  rho :: int
  mode :: string
  ds_mode_len :: "string \<rightharpoonup> int"
  ds_start_idx :: int
  inputs :: "('x, 'm, 'f) xdict"
  outputs :: "'y list"

text \<open>
  \<open>np.concatenate(arrays, axis=1)\<close>: the list must not be empty, every array needs an
  axis 1, and the arrays must agree in their number of dimensions and of rows; the rows
  are then joined position by position.
\<close>

definition join_rows :: "'a list list \<Rightarrow> 'a list list \<Rightarrow> 'a list list" where
  "join_rows a b = map (\<lambda>(r, q). r @ q) (zip a b)"

definition concatenate_axis1 :: "'a list ndarray list \<Rightarrow> error + 'a list list" where
  "concatenate_axis1 arrays =
     (case arrays of
        [] \<Rightarrow> Inl ValueError
      | a # rest \<Rightarrow>
          if ndim a < 2 then Inl AxisError
          else if list_ex (\<lambda>b. ndim b \<noteq> ndim a \<or> length (rows b) \<noteq> length (rows a)) rest
          then Inl ValueError
          else Inr (foldl join_rows (rows a) (map rows rest)))"

text \<open>The start of the split in the sample index space, as \<open>prepare_xy\<close> shifts it.\<close>

definition split_start :: "string \<Rightarrow> (string \<rightharpoonup> int) \<Rightarrow> int \<Rightarrow> error + int" where
  "split_start md ml s =
     (if md = ''train'' then Inr s
      else if md = ''validate'' then bind_err (lookup ml ''train'') (\<lambda>t. Inr (s + t))
      else bind_err (lookup ml ''train'') (\<lambda>t.
           bind_err (lookup ml ''validate'') (\<lambda>v. Inr (s + (t + v)))))"

definition prepare_xy ::
  "string \<Rightarrow> (string \<rightharpoonup> int) \<Rightarrow> int \<Rightarrow> ('x, 'm, 'f) feat_dict \<Rightarrow> 'y list \<Rightarrow>
     error + (int \<times> ('x, 'm, 'f) xdict \<times> 'y list)" where
  "prepare_xy md ml s0 inp outp =
     bind_err (split_start md ml s0) (\<lambda>s.
     let obs = filter (\<lambda>a. ndim a \<noteq> 2) [weekly inp, daily inp, serial inp];
         meta = filter (\<lambda>a. ndim a \<noteq> 2) [weekly_meta inp, daily_meta inp, serial_meta inp]
     in
     bind_err (concatenate_axis1 obs) (\<lambda>xs.
     bind_err (concatenate_axis1 meta) (\<lambda>ms.
     bind_err (lookup ml md) (\<lambda>n.
     Inr (s,
          \<lparr>x_seq = py_slice xs s (s + n), meta_seq = py_slice ms s (s + n), x_flow = flow inp\<rparr>,
          py_slice outp s (s + n))))))"

definition EMSDataset_init ::
  "('x, 'm, 'f) feat_dict \<Rightarrow> 'y list \<Rightarrow> int \<Rightarrow> int \<Rightarrow> int \<Rightarrow> int \<Rightarrow> string \<Rightarrow>
     (string \<rightharpoonup> int) \<Rightarrow> int \<Rightarrow> error + ('x, 'm, 'f, 'y) EMSDataset" where
  "EMSDataset_init inp outp day_ts s_len d_len w_len md ml s0 =
     bind_err (prepare_xy md ml s0 inp outp) (\<lambda>(s, x, y).
       Inr \<lparr>ds_serial_len = s_len, ds_daily_len = d_len, ds_weekly_len = w_len, rho = day_ts,
            mode = md, ds_mode_len = ml, ds_start_idx = s, inputs = x, outputs = y\<rparr>)"

text \<open>\<open>__len__\<close>.\<close>

definition len_dataset :: "('x, 'm, 'f, 'y, 'z) EMSDataset_scheme \<Rightarrow> error + int" where
  "len_dataset ds = lookup (ds_mode_len ds) (mode ds)"

text \<open>
  \<open>timestamp_query\<close>. For each scale the inner loop collects \<open>flow[timestamp % rho]\<close>
  for \<open>t = 1, \<dots>, t_len\<close>; \<open>%\<close> raises ZeroDivisionError when \<open>rho = 0\<close>. Python's
  \<open>%\<close> on integers takes the sign of the divisor, as \<open>mod\<close> on \<open>int\<close> does.
\<close>

definition sample_y_time :: "('x, 'm, 'f, 'y, 'z) EMSDataset_scheme \<Rightarrow> int \<Rightarrow> int" where
  "sample_y_time ds item =
     item + max (ds_serial_len ds) (max (ds_daily_len ds * rho ds) (ds_weekly_len ds * rho ds * 7))"

definition flow_scales :: "('x, 'm, 'f, 'y, 'z) EMSDataset_scheme \<Rightarrow> (int \<times> int) list" where
  "flow_scales ds =
     zip [ds_weekly_len ds, ds_daily_len ds, ds_serial_len ds] [rho ds * 7, rho ds, 1]"

definition flow_key :: "int \<Rightarrow> int \<Rightarrow> error + int" where
  "flow_key timestamp r = (if r = 0 then Inl ZeroDivisionError else Inr (timestamp mod r))"

definition flow_scale ::
  "('x, 'm, 'f, 'y, 'z) EMSDataset_scheme \<Rightarrow> 'f list \<Rightarrow> int \<Rightarrow> int \<times> int \<Rightarrow> error + 'f list" where
  "flow_scale ds fl y_time sc =
     (case sc of (t_len, factor) \<Rightarrow>
        bind_err
          (collect (\<lambda>t. bind_err (flow_key (y_time - t * factor) (rho ds)) (np_index fl)) [1..t_len])
          (\<lambda>Pt. Inr (rev Pt)))"

definition timestamp_query ::
  "('x, 'm, 'f, 'y, 'z) EMSDataset_scheme \<Rightarrow> 'f list \<Rightarrow> int \<Rightarrow> error + 'f list" where
  "timestamp_query ds fl item =
     bind_err (collect (flow_scale ds fl (sample_y_time ds item)) (flow_scales ds))
       (\<lambda>P. Inr (concat P))"

text \<open>
  The time offsets (target time minus timestamp) that \<open>timestamp_query\<close> selects, in the
  order of the returned window.
\<close>

definition flow_offsets :: "('x, 'm, 'f, 'y, 'z) EMSDataset_scheme \<Rightarrow> int list" where
  "flow_offsets ds =
     concat (map (\<lambda>(t_len, factor). rev (map (\<lambda>t. t * factor) [1..t_len])) (flow_scales ds))"

text \<open>\<open>__getitem__\<close>.\<close>

definition getitem ::
  "('x, 'm, 'f, 'y, 'z) EMSDataset_scheme \<Rightarrow> int \<Rightarrow>
     error + ('x list \<times> 'm list \<times> 'f list option \<times> 'y)" where
  "getitem ds item =
     bind_err
       (case x_flow (inputs ds) of
          Some fl \<Rightarrow> bind_err (timestamp_query ds fl item) (\<lambda>P. Inr (Some P))
        | None \<Rightarrow> Inr None) (\<lambda>dyn_P.
     bind_err (np_index (x_seq (inputs ds)) item) (\<lambda>x.
     bind_err (np_index (meta_seq (inputs ds)) item) (\<lambda>m.
     bind_err (np_index (outputs ds) item) (\<lambda>y.
     Inr (x, m, dyn_P, y)))))"


section \<open>DataInput: normalization and data loading\<close>

text \<open>
  The instance holds the configuration and, once a normalize call has run, the fitted
  statistics \<open>_max\<close>, \<open>_min\<close>, \<open>_mean\<close>, \<open>_std\<close>. An attribute that was never
  assigned is \<open>None\<close> here; reading it raises AttributeError.

  Arrays are modelled by the list of their elements in exact real arithmetic: the
  normalizers work element by element with scalar statistics. Where the source divides by
  zero NumPy yields \<open>nan\<close> or \<open>inf\<close> without raising; the model has HOL's \<open>x / 0 = 0\<close>
  there, and no statement below relies on it.
\<close>

record DataInput =
  M_dyn :: int
  M_sta :: int
  data_dir :: string
  norm_opt :: bool
  stat_max :: "real option"
  stat_min :: "real option"
  stat_mean :: "real option"
  stat_std :: "real option"

definition DataInput_init :: "int \<times> int \<Rightarrow> string \<Rightarrow> bool \<Rightarrow> DataInput" where
  "DataInput_init M_adj dir opt =
     \<lparr>M_dyn = fst M_adj, M_sta = snd M_adj, data_dir = dir, norm_opt = opt,
      stat_max = None, stat_min = None, stat_mean = None, stat_std = None\<rparr>"

definition attr :: "'a option \<Rightarrow> error + 'a" where
  "attr a = (case a of None \<Rightarrow> Inl AttributeError | Some v \<Rightarrow> Inr v)"

text \<open>\<open>x.mean()\<close> and \<open>x.std()\<close> (the population standard deviation) over all elements.\<close>

definition np_mean :: "real list \<Rightarrow> real" where
  "np_mean x = sum_list x / real (length x)"

definition np_std :: "real list \<Rightarrow> real" where
  "np_std x = sqrt (np_mean (map (\<lambda>v. (v - np_mean x)\<^sup>2) x))"

definition minmax_normalize ::
  "('z) DataInput_scheme \<Rightarrow> real list \<Rightarrow> error + (real list \<times> ('z) DataInput_scheme)" where
  "minmax_normalize s x =
     (if x = [] then Inl ValueError
      else
        let mx = Max (set x); mn = Min (set x);
            x1 = map (\<lambda>v. (v - mn) / (mx - mn)) x;
            x2 = map (\<lambda>v. 2 * v - 1) x1
        in Inr (x2, s\<lparr>stat_max := Some mx, stat_min := Some mn\<rparr>))"

definition minmax_denormalize :: "('z) DataInput_scheme \<Rightarrow> real list \<Rightarrow> error + real list" where
  "minmax_denormalize s x =
     (let x1 = map (\<lambda>v. (v + 1) / 2) x in
      bind_err (attr (stat_max s)) (\<lambda>mx.
      bind_err (attr (stat_min s)) (\<lambda>mn.
      Inr (map (\<lambda>v. (mx - mn) * v + mn) x1))))"

definition std_normalize ::
  "('z) DataInput_scheme \<Rightarrow> real list \<Rightarrow> real list \<times> ('z) DataInput_scheme" where
  "std_normalize s x =
     (let mean = np_mean x; std = np_std x
      in (map (\<lambda>v. (v - mean) / std) x, s\<lparr>stat_mean := Some mean, stat_std := Some std\<rparr>))"

definition std_denormalize :: "('z) DataInput_scheme \<Rightarrow> real list \<Rightarrow> error + real list" where
  "std_denormalize s x =
     bind_err (attr (stat_std s)) (\<lambda>std.
     bind_err (attr (stat_mean s)) (\<lambda>mean.
     Inr (map (\<lambda>v. v * std + mean) x)))"

text \<open>An array of the archive: its shape and its elements in row-major order.\<close>

record nparray =
  shape :: "nat list"
  elems :: "real list"

definition chunks :: "nat \<Rightarrow> nat \<Rightarrow> 'a list \<Rightarrow> 'a list list" where
  "chunks n k xs = map (\<lambda>i. take k (drop (i * k) xs)) [0..<n]"

text \<open>\<open>np.sum(a, axis=-1, keepdims=True)\<close>.\<close>

definition sum_last_axis :: "nparray \<Rightarrow> error + nparray" where
  "sum_last_axis a =
     (case rev (shape a) of
        [] \<Rightarrow> Inl AxisError
      | k # pre \<Rightarrow>
          Inr \<lparr>shape = rev pre @ [1],
               elems = map sum_list (chunks (prod_list pre) k (elems a))\<rparr>)"

text \<open>\<open>a[..., :m]\<close>.\<close>

definition take_last_axis :: "nparray \<Rightarrow> nat \<Rightarrow> error + nparray" where
  "take_last_axis a m =
     (case rev (shape a) of
        [] \<Rightarrow> Inl IndexError
      | k # pre \<Rightarrow>
          Inr \<lparr>shape = rev pre @ [min m k],
               elems = concat (map (take m) (chunks (prod_list pre) k (elems a)))\<rparr>)"

text \<open>
  \<open>load_data\<close>. \<open>files\<close> maps a path to the archive stored there (\<open>np.load\<close>), an
  archive maps its keys to arrays. The result is the dataset dict together with the
  instance, whose statistics \<open>std_normalize\<close> may have set.
\<close>

definition load_flow ::
  "int \<Rightarrow> (string \<rightharpoonup> nparray) \<Rightarrow> (string \<rightharpoonup> nparray) \<Rightarrow> error + (string \<rightharpoonup> nparray)" where
  "load_flow m_dyn npz_data dataset =
     (if m_dyn = 0 then Inr dataset
      else if m_dyn = 1 then
        bind_err (lookup npz_data ''flow'') (\<lambda>f.
        bind_err (sum_last_axis f) (\<lambda>f'. Inr (dataset(''flow'' \<mapsto> f'))))
      else if m_dyn = 2 then
        bind_err (lookup npz_data ''flow'') (\<lambda>f.
        bind_err (take_last_axis f (nat m_dyn)) (\<lambda>f'. Inr (dataset(''flow'' \<mapsto> f'))))
      else Inl ValueError)"

definition load_adj ::
  "bool \<Rightarrow> string \<Rightarrow> (string \<rightharpoonup> nparray) \<Rightarrow> (string \<rightharpoonup> nparray) \<Rightarrow> error + (string \<rightharpoonup> nparray)" where
  "load_adj wanted key npz_data dataset =
     (if wanted then bind_err (lookup npz_data key) (\<lambda>a. Inr (dataset(key \<mapsto> a)))
      else Inr dataset)"

definition load_data ::
  "(string \<rightharpoonup> (string \<rightharpoonup> nparray)) \<Rightarrow> ('z) DataInput_scheme \<Rightarrow>
     error + ((string \<rightharpoonup> nparray) \<times> ('z) DataInput_scheme)" where
  "load_data files s =
     bind_err (case files (data_dir s) of None \<Rightarrow> Inl FileNotFoundError | Some z \<Rightarrow> Inr z)
       (\<lambda>npz_data.
     bind_err (lookup npz_data ''ems'') (\<lambda>ems.
     let (ems', s') =
           (if norm_opt s
            then (case std_normalize s (elems ems) of (e, t) \<Rightarrow> (ems\<lparr>elems := e\<rparr>, t))
            else (ems, s))
     in
     bind_err (lookup npz_data ''meta'') (\<lambda>meta.
     bind_err (load_flow (M_dyn s) npz_data [''ems'' \<mapsto> ems', ''meta'' \<mapsto> meta]) (\<lambda>d1.
     bind_err (load_adj (M_sta s \<ge> 1) ''neighbor_adj'' npz_data d1) (\<lambda>d2.
     bind_err (load_adj (M_sta s \<ge> 2) ''trans_adj'' npz_data d2) (\<lambda>d3.
     bind_err (load_adj (M_sta s \<ge> 3) ''semantic_adj'' npz_data d3) (\<lambda>d4.
     if M_sta s \<ge> 4 then Inl ValueError else Inr (d4, s'))))))))"


section \<open>ModelTrainer: the training loop\<close>

text \<open>
  The model, the optimizer, the loss and the data loaders are external. One pass over the
  batches of a mode is a parameter \<open>run_pass epoch mode live\<close>: from the live parameters
  it yields the loss summed over the batches (each weighted by its size), the number of
  samples \<open>step\<close>, and the parameters after the pass, or the exception a batch raised.
  Only a pass in mode \<open>train\<close> changes the parameters.

  \<open>model.state_dict()\<close> holds references to the live parameter tensors, which the
  optimizer updates in place; what \<open>torch.save\<close> writes is therefore the checkpoint's
  epoch with the parameters the model has at the time of saving.
\<close>

record 'p train_state =
  checkpoint_epoch :: nat
  val_loss :: "real option"
  early_stopper :: int
  best_model_file :: "(nat \<times> 'p) option"

text \<open>
  The end of a validate pass. \<open>val_loss = None\<close> stands for \<open>np.inf\<close>. The result
  says whether \<open>train\<close> returns here.
\<close>

definition validate_end ::
  "nat \<Rightarrow> 'p \<Rightarrow> real \<Rightarrow> nat \<Rightarrow> 'p train_state \<Rightarrow> error + (bool \<times> 'p train_state)" where
  "validate_end epoch live running step st =
     (if step = 0 then Inl ZeroDivisionError
      else
        let mean_loss = running / real step in
        if (case val_loss st of None \<Rightarrow> True | Some best \<Rightarrow> mean_loss \<le> best)
        then Inr (False,
                  st\<lparr>val_loss := Some mean_loss,
                     checkpoint_epoch := epoch,
                     best_model_file := Some (epoch, live),
                     early_stopper := 10\<rparr>)
        else
          let es = early_stopper st - 1
          in Inr (es = 0, st\<lparr>early_stopper := es\<rparr>))"

text \<open>
  The loop over the modes of one epoch; \<open>running_loss\<close> is the dict of the epoch, keyed
  by mode.
\<close>

fun run_modes ::
  "(nat \<Rightarrow> string \<Rightarrow> 'p \<Rightarrow> error + (real \<times> nat \<times> 'p)) \<Rightarrow> nat \<Rightarrow> string list \<Rightarrow>
     (string \<Rightarrow> real) \<Rightarrow> 'p \<Rightarrow> 'p train_state \<Rightarrow> error + (bool \<times> 'p \<times> 'p train_state)" where
  "run_modes run_pass epoch [] running_loss live st = Inr (False, live, st)"
| "run_modes run_pass epoch (md # modes) running_loss live st =
     (case run_pass epoch md live of
        Inl e \<Rightarrow> Inl e
      | Inr (loss_sum, step, live1) \<Rightarrow>
          let live' = (if md = ''train'' then live1 else live);
              running_loss' = running_loss(md := running_loss md + loss_sum)
          in
          if md = ''validate'' then
            (case validate_end epoch live' (running_loss' md) step st of
               Inl e \<Rightarrow> Inl e
             | Inr (stop, st') \<Rightarrow>
                 if stop then Inr (True, live', st')
                 else run_modes run_pass epoch modes running_loss' live' st')
          else run_modes run_pass epoch modes running_loss' live' st)"

text \<open>The loop over the epochs; the result names the epoch of an early return.\<close>

fun run_epochs ::
  "(nat \<Rightarrow> string \<Rightarrow> 'p \<Rightarrow> error + (real \<times> nat \<times> 'p)) \<Rightarrow> string list \<Rightarrow> nat list \<Rightarrow>
     'p \<Rightarrow> 'p train_state \<Rightarrow> error + (nat option \<times> 'p \<times> 'p train_state)" where
  "run_epochs run_pass modes [] live st = Inr (None, live, st)"
| "run_epochs run_pass modes (epoch # epochs) live st =
     (case run_modes run_pass epoch modes (\<lambda>_. 0) live st of
        Inl e \<Rightarrow> Inl e
      | Inr (stop, live', st') \<Rightarrow>
          if stop then Inr (Some epoch, live', st')
          else run_epochs run_pass modes epochs live' st')"

definition train ::
  "(nat \<Rightarrow> string \<Rightarrow> 'p \<Rightarrow> error + (real \<times> nat \<times> 'p)) \<Rightarrow> nat \<Rightarrow> string list \<Rightarrow> int \<Rightarrow>
     'p \<Rightarrow> (nat \<times> 'p) option \<Rightarrow> error + (nat option \<times> 'p \<times> 'p train_state)" where
  "train run_pass n_epochs modes patience live0 file0 =
     bind_err
       (run_epochs run_pass modes [1..<Suc n_epochs] live0
          \<lparr>checkpoint_epoch = 0, val_loss = None, early_stopper = patience,
           best_model_file = file0\<rparr>)
       (\<lambda>(stopped, live, st).
          case stopped of
            Some epoch \<Rightarrow> Inr (stopped, live, st)
          | None \<Rightarrow> Inr (stopped, live, st\<lparr>best_model_file := Some (checkpoint_epoch st, live)\<rparr>))"


section \<open>ModelTrainer: the evaluation pass\<close>

text \<open>
  The metrics, on the element lists of two arrays of the same shape.
\<close>

definition MSE :: "real list \<Rightarrow> real list \<Rightarrow> real" where
  "MSE y_pred y_true = np_mean (map (\<lambda>(p, t). (p - t)\<^sup>2) (zip y_pred y_true))"

definition RMSE :: "real list \<Rightarrow> real list \<Rightarrow> real" where
  "RMSE y_pred y_true = sqrt (np_mean (map (\<lambda>(p, t). (p - t)\<^sup>2) (zip y_pred y_true)))"

definition MAE :: "real list \<Rightarrow> real list \<Rightarrow> real" where
  "MAE y_pred y_true = np_mean (map (\<lambda>(p, t). \<bar>p - t\<bar>) (zip y_pred y_true))"

definition MAPE :: "real list \<Rightarrow> real list \<Rightarrow> real" where
  "MAPE y_pred y_true = np_mean (map (\<lambda>(p, t). \<bar>p - t\<bar> / (t + 1)) (zip y_pred y_true))"

text \<open>\<open>np.concatenate(arrays, axis=0)\<close> raises ValueError on an empty list.\<close>

definition concatenate_axis0 :: "'a list list \<Rightarrow> error + 'a list" where
  "concatenate_axis0 arrays = (if arrays = [] then Inl ValueError else Inr (concat arrays))"

text \<open>
  The evaluation of one mode. \<open>forward params batch\<close> is the external model (with the
  preprocessing of the flow window and the loss of the batch), \<open>y_true_of batch\<close> the
  target of the batch. \<open>y_pred\<close> is only assigned when the model is named
  \<open>STIAM_Net\<close>. The result holds the four printed metrics: MSE, RMSE, MAE and MAPE in
  percent.
\<close>

definition test_batch ::
  "string \<Rightarrow> ('p \<Rightarrow> 'b \<Rightarrow> error + real list) \<Rightarrow> ('b \<Rightarrow> real list) \<Rightarrow> 'p \<Rightarrow> 'b \<Rightarrow>
     error + (real list \<times> real list)" where
  "test_batch model_name forward y_true_of params batch =
     bind_err (if model_name = ''STIAM_Net'' then forward params batch else Inl UnboundLocalError)
       (\<lambda>y_pred. Inr (y_true_of batch, y_pred))"

definition test_mode ::
  "('z) DataInput_scheme \<Rightarrow> string \<Rightarrow> ('p \<Rightarrow> 'b \<Rightarrow> error + real list) \<Rightarrow> ('b \<Rightarrow> real list) \<Rightarrow>
     'p \<Rightarrow> (string \<rightharpoonup> 'b list) \<Rightarrow> string \<Rightarrow> error + (string \<times> real \<times> real \<times> real \<times> real)" where
  "test_mode data_class model_name forward y_true_of params data_loader md =
     bind_err (lookup data_loader md) (\<lambda>batches.
     bind_err (collect (test_batch model_name forward y_true_of params) batches) (\<lambda>results.
     bind_err (concatenate_axis0 (map fst results)) (\<lambda>gt.
     bind_err (std_denormalize data_class gt) (\<lambda>ground_truth.
     bind_err (concatenate_axis0 (map snd results)) (\<lambda>pr.
     bind_err (std_denormalize data_class pr) (\<lambda>prediction.
     Inr (md, MSE prediction ground_truth, RMSE prediction ground_truth,
          MAE prediction ground_truth, MAPE prediction ground_truth * 100)))))))"

definition test ::
  "('z) DataInput_scheme \<Rightarrow> string \<Rightarrow> ('p \<Rightarrow> 'b \<Rightarrow> error + real list) \<Rightarrow> ('b \<Rightarrow> real list) \<Rightarrow>
     (nat \<times> 'p) option \<Rightarrow> (string \<rightharpoonup> 'b list) \<Rightarrow> string list \<Rightarrow>
     error + (string \<times> real \<times> real \<times> real \<times> real) list" where
  "test data_class model_name forward y_true_of saved data_loader modes =
     (case saved of
        None \<Rightarrow> Inl FileNotFoundError
      | Some (epoch, state_dict) \<Rightarrow>
          collect (test_mode data_class model_name forward y_true_of state_dict data_loader) modes)"


section \<open>Conditions on the inputs\<close>

text \<open>
  The flow array can be read for a valid dynamic-mobility level: level \<open>0\<close> reads
  nothing, the levels \<open>1\<close> and \<open>2\<close> need the array, with at least one axis.
\<close>

definition flow_readable :: "int \<Rightarrow> (string \<rightharpoonup> nparray) \<Rightarrow> bool" where
  "flow_readable m npz_data =
     (m = 0 \<or> (case npz_data ''flow'' of None \<Rightarrow> False | Some f \<Rightarrow> shape f \<noteq> []))"

text \<open>
  Every read that \<open>load_data\<close> makes before it reaches the check of an invalid level
  succeeds: the archive exists and holds \<open>ems\<close> and \<open>meta\<close>; and when the
  dynamic-mobility level is valid, so that the check that fails is the one of the
  static-adjacency level, it also holds the flow array that level reads and the three
  adjacency arrays.
\<close>

definition reads_before_check ::
  "(string \<rightharpoonup> (string \<rightharpoonup> nparray)) \<Rightarrow> ('z) DataInput_scheme \<Rightarrow> bool" where
  "reads_before_check files s =
     (case files (data_dir s) of
        None \<Rightarrow> False
      | Some npz_data \<Rightarrow>
          npz_data ''ems'' \<noteq> None \<and> npz_data ''meta'' \<noteq> None
          \<and> ((M_dyn s \<noteq> 0 \<and> M_dyn s \<noteq> 1 \<and> M_dyn s \<noteq> 2)
               \<or> (flow_readable (M_dyn s) npz_data
                   \<and> npz_data ''neighbor_adj'' \<noteq> None \<and> npz_data ''trans_adj'' \<noteq> None
                   \<and> npz_data ''semantic_adj'' \<noteq> None)))"


text \<open>
  The evaluation of a mode gets as far as the denormalize call: the loader has the mode,
  with at least one batch, and the model produced \<open>results\<close>, the pairs of target and
  prediction of the batches.
\<close>

definition reaches_denormalize ::
  "string \<Rightarrow> ('p \<Rightarrow> 'b \<Rightarrow> error + real list) \<Rightarrow> ('b \<Rightarrow> real list) \<Rightarrow> 'p \<Rightarrow>
     (string \<rightharpoonup> 'b list) \<Rightarrow> string \<Rightarrow> (real list \<times> real list) list \<Rightarrow> bool" where
  "reaches_denormalize model_name forward y_true_of params data_loader md results =
     (case data_loader md of
        None \<Rightarrow> False
      | Some batches \<Rightarrow>
          batches \<noteq> []
          \<and> collect (test_batch model_name forward y_true_of params) batches = Inr results)"

text \<open>
  The windowed arrays and the targets all have \<open>M\<close> samples, as the results of
  \<open>get_feats\<close> on two series of the same length have.
\<close>

definition rows_aligned :: "('x, 'm, 'f) feat_dict \<Rightarrow> 'y list \<Rightarrow> nat \<Rightarrow> bool" where
  "rows_aligned inp outp M =
     (list_all (\<lambda>a. length (rows a) = M) [weekly inp, daily inp, serial inp]
      \<and> list_all (\<lambda>a. length (rows a) = M) [weekly_meta inp, daily_meta inp, serial_meta inp]
      \<and> length outp = M)"

text \<open>The flow array, when present, holds one snapshot per timestep of the day.\<close>

definition flow_cycle_ok :: "('x, 'm, 'f) feat_dict \<Rightarrow> int \<Rightarrow> bool" where
  "flow_cycle_ok inp day_ts =
     (case flow inp of None \<Rightarrow> True | Some fl \<Rightarrow> 0 < day_ts \<and> int (length fl) = day_ts)"


section \<open>Concrete inputs\<close>

text \<open>A dataset with the given window parameters and flow cycle, and no samples.\<close>

definition flow_store :: "int \<Rightarrow> int \<Rightarrow> int \<Rightarrow> int \<Rightarrow> nat list option \<Rightarrow> (nat, nat, nat, nat) EMSDataset" where
  "flow_store s d w p fl =
     \<lparr>ds_serial_len = s, ds_daily_len = d, ds_weekly_len = w, rho = p, mode = ''train'',
      ds_mode_len = Map.empty, ds_start_idx = 0,
      inputs = \<lparr>x_seq = [], meta_seq = [], x_flow = fl\<rparr>, outputs = []\<rparr>"

text \<open>
  A scripted run: the parameters are the number of the last epoch trained, every pass
  sees one sample, and the validate pass of epoch \<open>e\<close> has the \<open>e\<close>-th loss of the list.
\<close>

definition scripted_pass :: "real list \<Rightarrow> nat \<Rightarrow> string \<Rightarrow> nat \<Rightarrow> error + (real \<times> nat \<times> nat)" where
  "scripted_pass losses epoch md live =
     (if md = ''train'' then Inr (0, 1, epoch) else Inr (losses ! (epoch - 1), 1, live))"

text \<open>The float literals \<open>0.25\<close>, \<open>0.35\<close> and \<open>0.3\<close>.\<close>

definition float_0_25 :: double where
  "float_0_25 = Double 1 (- 2)"

definition float_0_35 :: double where
  "float_0_35 = Double 3152519739159347 (- 53)"

definition float_0_3 :: double where
  "float_0_3 = Double 5404319552844595 (- 54)"


text \<open>
  An archive with all six arrays, stored at \<open>data.npz\<close>, and one with the series and
  the metadata alone, stored at \<open>small.npz\<close>.
\<close>

definition demo_array :: nparray where
  "demo_array = \<lparr>shape = [2, 1, 1, 2], elems = [1, 2, 3, 5]\<rparr>"

definition demo_archive :: "string \<rightharpoonup> nparray" where
  "demo_archive =
     [''ems'' \<mapsto> demo_array, ''meta'' \<mapsto> demo_array, ''flow'' \<mapsto> demo_array,
      ''neighbor_adj'' \<mapsto> demo_array, ''trans_adj'' \<mapsto> demo_array,
      ''semantic_adj'' \<mapsto> demo_array]"

definition small_archive :: "string \<rightharpoonup> nparray" where
  "small_archive = [''ems'' \<mapsto> demo_array, ''meta'' \<mapsto> demo_array]"

definition demo_files :: "string \<rightharpoonup> (string \<rightharpoonup> nparray)" where
  "demo_files = [''data.npz'' \<mapsto> demo_archive, ''small.npz'' \<mapsto> small_archive]"

text \<open>
  A loader with one test batch, given as the pair of its target and of the prediction
  the model makes for it.
\<close>

definition demo_loader :: "string \<rightharpoonup> (real list \<times> real list) list" where
  "demo_loader = [''test'' \<mapsto> [([0, 1], [1, 1])]]"

definition demo_forward :: "nat \<Rightarrow> real list \<times> real list \<Rightarrow> error + real list" where
  "demo_forward params batch = Inr (snd batch)"

text \<open>
  The windows of the series \<open>0, 1, 2, 3\<close> for \<open>serial_len = daily_len = 1\<close>,
  \<open>weekly_len = 0\<close> and one timestep per day (three samples, the weekly array empty
  and two-dimensional), with a flow cycle of one snapshot, and a split plan.
\<close>

definition demo_feats :: "(nat, nat, nat) feat_dict" where
  "demo_feats =
     \<lparr>serial = \<lparr>ndim = 4, rows = [[0], [1], [2]]\<rparr>,
      daily = \<lparr>ndim = 4, rows = [[0], [1], [2]]\<rparr>,
      weekly = \<lparr>ndim = 2, rows = [[], [], []]\<rparr>,
      serial_meta = \<lparr>ndim = 4, rows = [[0], [1], [2]]\<rparr>,
      daily_meta = \<lparr>ndim = 4, rows = [[0], [1], [2]]\<rparr>,
      weekly_meta = \<lparr>ndim = 2, rows = [[], [], []]\<rparr>,
      flow = Some [7]\<rparr>"

definition demo_plan :: "string \<rightharpoonup> int" where
  "demo_plan = [''train'' \<mapsto> 2, ''validate'' \<mapsto> 1, ''test'' \<mapsto> 2]"

text \<open>The train split that \<open>EMSDataset\<close> builds from these windows and this plan.\<close>

definition demo_store :: "(nat, nat, nat, nat) EMSDataset" where
  "demo_store =
     \<lparr>ds_serial_len = 1, ds_daily_len = 1, ds_weekly_len = 0, rho = 1, mode = ''train'',
      ds_mode_len = demo_plan, ds_start_idx = 0,
      inputs = \<lparr>x_seq = [[0, 0], [1, 1]], meta_seq = [[0, 0], [1, 1]], x_flow = Some [7]\<rparr>,
      outputs = [1, 2]\<rparr>"


section \<open>Basic facts about the primitives\<close>

lemma bind_err_Inl [simp]: "bind_err (Inl e) f = Inl e"
  by (simp add: bind_err_def)

lemma bind_err_Inr [simp]: "bind_err (Inr v) f = f v"
  by (simp add: bind_err_def)

lemma bind_err_eq_Inr: "bind_err r f = Inr y \<longleftrightarrow> (\<exists>v. r = Inr v \<and> f v = Inr y)"
  by (cases r) simp_all

lemma collect_length: "collect f xs = Inr ys \<Longrightarrow> length ys = length xs"
  by (induction xs arbitrary: ys) (auto split: sum.splits)

lemma collect_succeeds:
  "(\<And>x. x \<in> set xs \<Longrightarrow> \<exists>y. f x = Inr y) \<Longrightarrow> \<exists>ys. collect f xs = Inr ys"
proof (induction xs)
  case Nil
  then show ?case by simp
next
  case (Cons a xs)
  obtain y where "f a = Inr y"
    using Cons.prems by fastforce
  moreover obtain ys where "collect f xs = Inr ys"
    using Cons by fastforce
  ultimately show ?case by simp
qed

lemma np_index_isl: "isl (np_index a k) \<longleftrightarrow> \<not> (- int (length a) \<le> k \<and> k < int (length a))"
  by (auto simp: np_index_def Let_def)

lemma length_py_slice:
  assumes "0 \<le> lo" and "lo \<le> hi" and "hi \<le> int (length a)"
  shows "length (py_slice a lo hi) = nat (hi - lo)"
  using assms by (auto simp: py_slice_def slice_bound_def Let_def)


section \<open>The window generator reads before the start of the series\<close>

text \<open>
  C1. The claim: the generator emits samples only for indices
  \<open>i \<ge> max(serial_len, daily_len * daily_period, weekly_len * daily_period * 7)\<close>, and
  every element read for the Serial, Daily and Weekly windows of an emitted \<open>i\<close> lies at
  a non-negative index below \<open>i\<close>, with no wrap-around.

  The code does not keep the second half. With \<open>serial_len = 1\<close>, \<open>daily_len = 2\<close>,
  \<open>weekly_len = 0\<close>, one timestep per day and the series \<open>0, \<dots>, 9\<close>, the first emitted
  index is \<open>2\<close>; \<open>get_periodic_skip_seq\<close> steps by \<open>p_steps * d\<close> with
  \<open>p_steps = daily_len * day_timesteps\<close>, so it reads the indices \<open>0\<close> and \<open>-2\<close>, and
  the read at \<open>-2\<close> wraps around to the element \<open>8\<close>, six steps after the target.
\<close>

theorem get_feats_reads_wrap_around:
  "feats_start_idx (window_gen 1 2 0 1) = 2
   \<and> feats_indices (window_gen 1 2 0 1) [0..<10::nat] = [2, 3, 4, 5, 6, 7, 8, 9]
   \<and> skip_reads (window_gen 1 2 0 1) 2 ''daily'' = [0, - 2]
   \<and> get_periodic_skip_seq (window_gen 1 2 0 1) [0..<10::nat] 2 ''daily'' = Inr [8, 0]
   \<and> get_feats (window_gen 1 2 0 1) [0..<10::nat] =
       Inr ([[1], [2], [3], [4], [5], [6], [7], [8]],
            [[8, 0], [9, 1], [0, 2], [1, 3], [2, 4], [3, 5], [4, 6], [5, 7]],
            [[], [], [], [], [], [], [], []],
            [2, 3, 4, 5, 6, 7, 8, 9])"
  by code_simp

text \<open>
  C2. The claim: on the series \<open>0, \<dots>, K-1\<close> the Serial window of sample \<open>i\<close> is
  \<open>[i-s, \<dots>, i-1]\<close>, the \<open>k\<close>-th element from the end of the Daily window is
  \<open>series[i - k*p]\<close> (its last element \<open>series[i-p]\<close>), and the last element of the
  Weekly window is \<open>series[i-7p]\<close>.

  With \<open>s = 3\<close>, \<open>d = 2\<close>, \<open>w = 2\<close>, \<open>p = 1\<close>, \<open>K = 30\<close> and \<open>i = 28\<close> the Serial
  window is \<open>[25, 26, 27]\<close> as claimed, but the Daily window is \<open>[24, 26]\<close>, ending in
  \<open>series[i - 2p]\<close> instead of \<open>series[i - p] = 27\<close>, and the Weekly window is
  \<open>[0, 14]\<close>, ending in \<open>series[i - 14p]\<close> instead of \<open>series[i - 7p] = 21\<close>.
\<close>

theorem get_feats_window_misaligned:
  "feats_indices (window_gen 3 2 2 1) [0..<30::nat] =
     [14, 15, 16, 17, 18, 19, 20, 21, 22, 23, 24, 25, 26, 27, 28, 29]
   \<and> feats_at (window_gen 3 2 2 1) [0..<30::nat] 28 = Inr ([25, 26, 27], [24, 26], [0, 14], 28)"
  by code_simp

text \<open>
  C3. The claim: the flow-window resolver returns \<open>weekly_len + daily_len + serial_len\<close>
  positions, and the time offsets it selects, in the order weekly, daily, serial,
  coincide with those of the window generator for the same sample.

  With \<open>serial_len = 1\<close>, \<open>daily_len = 2\<close>, \<open>weekly_len = 0\<close> and \<open>24\<close> timesteps per day
  the resolver returns three positions at the offsets \<open>48, 24, 1\<close>, while the window
  generator reads at the offsets \<open>96, 48, 1\<close> (sample \<open>2\<close>, target index \<open>50\<close>, in a
  series of \<open>100\<close> steps).
\<close>

theorem flow_offsets_differ_from_get_feats:
  "flow_offsets (flow_store 1 2 0 24 None) = [48, 24, 1]
   \<and> feats_offsets (window_gen 1 2 0 24) 100 (2 + feats_start_idx (window_gen 1 2 0 24)) = [96, 48, 1]
   \<and> sample_y_time (flow_store 1 2 0 24 None) 2 = 2 + feats_start_idx (window_gen 1 2 0 24)
   \<and> timestamp_query (flow_store 1 2 0 24 None) [0..<24] 2 = Inr [2, 2, 1]"
  by code_simp

text \<open>
  The parts of C1 and C3 that the code keeps: a sample is emitted exactly for the indices
  from \<open>feats_start_idx\<close> up to the end of the series, and a flow window that is
  returned has one position per step of the three scales.
\<close>

lemma set_feats_indices:
  "set (feats_indices g data) = {i. feats_start_idx g \<le> i \<and> i < int (length data)}"
  by (auto simp: feats_indices_def py_range_def)

lemma flow_scale_length:
  "flow_scale ds fl y_time (t_len, factor) = Inr Pt \<Longrightarrow> length Pt = nat t_len"
  by (auto simp: flow_scale_def bind_err_def split: sum.splits dest: collect_length)

lemma timestamp_query_length:
  assumes "timestamp_query ds fl item = Inr P"
  shows "length P = nat (ds_weekly_len ds) + nat (ds_daily_len ds) + nat (ds_serial_len ds)"
  using assms
  by (auto simp: timestamp_query_def flow_scales_def bind_err_def split: sum.splits
      dest!: flow_scale_length)

lemma flow_scale_succeeds:
  assumes "0 < rho ds" and "int (length fl) = rho ds"
  shows "\<exists>Pt. flow_scale ds fl y_time sc = Inr Pt"
proof -
  obtain t_len factor where sc: "sc = (t_len, factor)"
    by (cases sc)
  have "\<exists>y. bind_err (flow_key (y_time - t * factor) (rho ds)) (np_index fl) = Inr y" for t
    using assms by (simp add: flow_key_def np_index_def)
  then obtain Pt where
    "collect (\<lambda>t. bind_err (flow_key (y_time - t * factor) (rho ds)) (np_index fl)) [1..t_len] = Inr Pt"
    using collect_succeeds [of "[1..t_len]"
        "\<lambda>t. bind_err (flow_key (y_time - t * factor) (rho ds)) (np_index fl)"]
    by blast
  then show ?thesis
    by (simp add: flow_scale_def sc)
qed

lemma timestamp_query_succeeds:
  assumes "0 < rho ds" and "int (length fl) = rho ds"
  shows "\<exists>P. timestamp_query ds fl item = Inr P"
proof -
  obtain Ps where "collect (flow_scale ds fl (sample_y_time ds item)) (flow_scales ds) = Inr Ps"
    using collect_succeeds [of "flow_scales ds" "flow_scale ds fl (sample_y_time ds item)"]
      flow_scale_succeeds [OF assms]
    by blast
  then show ?thesis
    by (simp add: timestamp_query_def)
qed


section \<open>The training loop resets the early-stop counter to ten\<close>

text \<open>
  Whatever the counter was configured to, an improving validate pass sets it to \<open>10\<close>.
\<close>

lemma validate_end_improves:
  assumes "step \<noteq> 0"
    and "case val_loss st of None \<Rightarrow> True | Some best \<Rightarrow> running / real step \<le> best"
  shows "validate_end epoch live running step st =
     Inr (False,
          st\<lparr>val_loss := Some (running / real step), checkpoint_epoch := epoch,
             best_model_file := Some (epoch, live), early_stopper := 10\<rparr>)"
  using assms by (simp add: validate_end_def)

lemma validate_end_no_improvement:
  assumes "step \<noteq> 0" and "val_loss st = Some best" and "\<not> running / real step \<le> best"
  shows "validate_end epoch live running step st =
     Inr (early_stopper st - 1 = 0, st\<lparr>early_stopper := early_stopper st - 1\<rparr>)"
  using assms by (simp add: validate_end_def Let_def)

text \<open>
  C4. The claim: a validate loss at most the best seen saves the checkpoint and resets
  the early-stop counter to its configured patience; otherwise the counter is decremented
  and training ends at once when it reaches zero.

  The reset is to the constant \<open>10\<close>, not to the configured value. With the patience
  \<open>3\<close> and the validate losses \<open>5, 4, 4, 6, 7, 7, 7, 7, 7, 7\<close> of ten epochs the best
  epoch is \<open>3\<close> and the third loss in a row without improvement comes in epoch \<open>6\<close>,
  where training should end. The code runs all ten epochs (no early return) and ends
  with the counter at \<open>3\<close>: epoch \<open>3\<close> set it to \<open>10\<close> and seven epochs decremented it.
\<close>

theorem train_resets_patience_to_ten:
  "train (scripted_pass [5, 4, 4, 6, 7, 7, 7, 7, 7, 7]) 10 [''train'', ''validate''] 3 0 None =
     Inr (None, 10,
          \<lparr>checkpoint_epoch = 3, val_loss = Some 4, early_stopper = 3,
           best_model_file = Some (3, 10)\<rparr>)"
  by code_simp


section \<open>Split planning\<close>

lemma index_of_append: "index_of xs x = Inr i \<Longrightarrow> index_of (xs @ ys) x = Inr i"
proof (induction xs arbitrary: i)
  case Nil
  then show ?case by simp
next
  case (Cons y xs)
  then show ?case
    by (cases "index_of xs x") (auto split: if_splits)
qed

text \<open>The calendar starts with the 31 days of January.\<close>

lemma date_range_january:
  "\<exists>rest. date_range year = map (\<lambda>d. str_nat year @ pad2 1 @ pad2 d) [1..<32] @ rest"
proof -
  have "[1..<13] = 1 # [2..<13]"
    by (simp add: upt_conv_Cons)
  then show ?thesis
    by (simp add: date_range_def month_lengths_def del: upt_Suc)
qed

lemma index_of_january:
  assumes "index_of (map (\<lambda>d. str_nat year @ pad2 1 @ pad2 d) [1..<32]) x = Inr i"
  shows "index_of (date_range year) x = Inr i"
proof -
  obtain rest where "date_range year = map (\<lambda>d. str_nat year @ pad2 1 @ pad2 d) [1..<32] @ rest"
    using date_range_january by blast
  then show ?thesis
    using index_of_append [OF assms] by simp
qed

lemma january_2017:
  "index_of (date_range 2017) (str_nat 2017 @ ''0101'') = Inr 0"
  "index_of (date_range 2017) (str_nat 2017 @ ''0102'') = Inr 1"
  "index_of (date_range 2017) (str_nat 2017 @ ''0110'') = Inr 9"
  "index_of (date_range 2017) (str_nat 2017 @ ''0111'') = Inr 10"
  "index_of (date_range 2017) (str_nat 2017 @ ''0112'') = Inr 11"
  "index_of (date_range 2017) (str_nat 2017 @ ''0115'') = Inr 14"
  "index_of (date_range 2017) (str_nat 2017 @ ''0116'') = Inr 15"
  "index_of (date_range 2017) (str_nat 2017 @ ''0117'') = Inr 16"
  by (rule index_of_january, simp add: pad2_def digit_char_def upt_rec)+




text \<open>
  The plan of \<open>date2len\<close> when the four dates are days of the year and the float
  product does not overflow.
\<close>

lemma date2len_eq:
  assumes "train_test_dates g = d0 # d1 # d2 # d3 # extra"
    and "index_of (date_range year) (str_nat year @ d0) = Inr train_s"
    and "index_of (date_range year) (str_nat year @ d1) = Inr train_e"
    and "index_of (date_range year) (str_nat year @ d2) = Inr test_s"
    and "index_of (date_range year) (str_nat year @ d3) = Inr test_e"
    and "nominal = (train_e + 1 - train_s) * day_timesteps g"
    and "float_of_int nominal = Inr x"
    and "float_mul x (val_ratio g) = Inr product"
  shows "date2len g year =
     Inr (train_s,
          [''train'' \<mapsto> nominal - py_int product,
           ''validate'' \<mapsto> py_int product,
           ''test'' \<mapsto> (test_e + 1 - test_s) * day_timesteps g])"
proof -
  have idx: "np_index (train_test_dates g) 0 = Inr d0" "np_index (train_test_dates g) 1 = Inr d1"
    "np_index (train_test_dates g) 2 = Inr d2" "np_index (train_test_dates g) 3 = Inr d3"
    by (simp_all add: assms(1) np_index_def)
  have f: "float_of_int ((train_e + 1 - train_s) * day_timesteps g) = Inr x"
    using assms(6,7) by simp
  show ?thesis
    by (simp add: date2len_def idx assms(2-5) f assms(8) Let_def assms(6))
qed

text \<open>The shift of the start that \<open>prepare_xy\<close> applies for each split.\<close>

lemma split_start_cases:
  assumes "ml ''train'' = Some t" and "ml ''validate'' = Some v"
  shows "split_start ''train'' ml s = Inr s"
    and "split_start ''validate'' ml s = Inr (s + t)"
    and "split_start ''test'' ml s = Inr (s + (t + v))"
  using assms by (simp_all add: split_start_def lookup_def)

text \<open>The float products of the examples below.\<close>

lemma example_products:
  "float_of_int 216 = Inr (Double 216 0)"
  "float_mul (Double 216 0) float_0_25 = Inr (Double 216 (- 2))"
  "float_of_int 240 = Inr (Double 240 0)"
  "float_mul (Double 240 0) float_0_25 = Inr (Double 240 (- 2))"
  "float_mul (Double 240 0) float_0_3 = Inr (Double 5066549580791808 (- 46))"
  "float_of_int 360 = Inr (Double 360 0)"
  "float_mul (Double 360 0) float_0_35 = Inr (Double 8866461766385663 (- 46))"
  by code_simp+

lemma example_truncations:
  "py_int (Double 216 (- 2)) = 54"
  "py_int (Double 240 (- 2)) = 60"
  "py_int (Double 5066549580791808 (- 46)) = 72"
  "py_int (Double 8866461766385663 (- 46)) = 125"
  by code_simp+

text \<open>
  C5. The claim: the start offset that split planning returns is in timestep units, the
  day ordinal of the train range's start times the timesteps per day, and the splits
  begin at that offset plus the lengths of the preceding splits.

  The second half holds (\<open>split_start_cases\<close>). The offset, however, is the day ordinal
  itself: \<open>date2len\<close> multiplies the lengths by \<open>day_timesteps\<close> and returns
  \<open>train_s_idx\<close> as it is. For \<open>dt = 1\<close> (\<open>24\<close> timesteps per day), the train range
  January 2 to 10 and the test range January 11 to 12 of 2017, with \<open>val_ratio = 0.25\<close>,
  the offset is \<open>1\<close>, not \<open>24\<close>; the lengths are \<open>162\<close>, \<open>54\<close> and \<open>48\<close>, and the
  test split starts at \<open>217\<close>, while the test range starts \<open>240\<close> timesteps into the
  year.
\<close>

theorem date2len_start_is_day_ordinal:
  "(case DataGenerator_init 1 (1, 1, 1) [''0102'', ''0110'', ''0111'', ''0112''] float_0_25 2017 of
      Inl e \<Rightarrow> None
    | Inr g \<Rightarrow>
        Some (day_timesteps g, start_idx g, mode_len g ''train'', mode_len g ''validate'',
              mode_len g ''test'', split_start ''validate'' (mode_len g) (start_idx g),
              split_start ''test'' (mode_len g) (start_idx g)))
   = Some (24, 1, Some 162, Some 54, Some 48, Inr 163, Inr 217)"
proof -
  let ?g = "\<lparr>day_timesteps = 24 div 1, serial_len = 1, daily_len = 1, weekly_len = 1,
             train_test_dates = [''0102'', ''0110'', ''0111'', ''0112''], val_ratio = float_0_25,
             start_idx = 0, mode_len = Map.empty\<rparr>"
  have "date2len ?g 2017 =
     Inr (1, [''train'' \<mapsto> 216 - py_int (Double 216 (- 2)),
              ''validate'' \<mapsto> py_int (Double 216 (- 2)),
              ''test'' \<mapsto> (11 + 1 - 10) * day_timesteps ?g])"
    by (rule date2len_eq [where ?d0.0 = "''0102''" and ?d1.0 = "''0110''" and ?d2.0 = "''0111''"
          and ?d3.0 = "''0112''" and extra = "[]" and train_e = 9 and x = "Double 216 0"])
      (simp_all add: january_2017 example_products)
  then show ?thesis
    by (simp add: DataGenerator_init_def example_truncations split_start_def lookup_def)
qed





section \<open>Normalization round trips\<close>

lemma std_roundtrip_map:
  fixes x :: "real list"
  assumes "sd \<noteq> 0"
  shows "map (\<lambda>v. v * sd + m) (map (\<lambda>v. (v - m) / sd) x) = x"
proof -
  have "(v - m) / sd * sd + m = v" for v
    using assms by simp
  then show ?thesis
    by (simp add: o_def)
qed

lemma minmax_roundtrip_map:
  fixes x :: "real list"
  assumes "mx \<noteq> mn"
  shows "map (\<lambda>v. (mx - mn) * v + mn)
           (map (\<lambda>v. (v + 1) / 2) (map (\<lambda>v. 2 * v - 1) (map (\<lambda>v. (v - mn) / (mx - mn)) x))) = x"
proof -
  have "(mx - mn) * ((2 * ((v - mn) / (mx - mn)) - 1 + 1) / 2) + mn = v" for v
  proof -
    have half: "(2 * a - 1 + 1) / 2 = a" for a :: real
      by simp
    have "(2 * ((v - mn) / (mx - mn)) - 1 + 1) / 2 = (v - mn) / (mx - mn)"
      by (rule half)
    moreover have "(mx - mn) * ((v - mn) / (mx - mn)) = v - mn"
      using assms by simp
    ultimately show ?thesis
      by simp
  qed
  then show ?thesis
    by (simp add: o_def)
qed

text \<open>
  C7. For every array whose standard deviation is not zero, \<open>std_denormalize\<close> applied
  to the result of \<open>std_normalize\<close>, with the statistics that call stored, gives the
  array back; and for every array whose maximum differs from its minimum,
  \<open>minmax_denormalize\<close> applied to the result of \<open>minmax_normalize\<close> gives the array
  back. Both in exact arithmetic.
\<close>

theorem normalize_roundtrip:
  "(np_std x \<noteq> 0 \<longrightarrow>
      (case std_normalize s x of (x', s') \<Rightarrow> std_denormalize s' x') = Inr x)
   \<and> (x \<noteq> [] \<and> Max (set x) \<noteq> Min (set x) \<longrightarrow>
      bind_err (minmax_normalize s x) (\<lambda>(x', s'). minmax_denormalize s' x') = Inr x)"
proof (intro conjI impI)
  assume "np_std x \<noteq> 0"
  then show "(case std_normalize s x of (x', s') \<Rightarrow> std_denormalize s' x') = Inr x"
    using std_roundtrip_map [of "np_std x" "np_mean x" x]
    by (simp add: std_normalize_def std_denormalize_def Let_def attr_def o_def)
next
  assume "x \<noteq> [] \<and> Max (set x) \<noteq> Min (set x)"
  then show "bind_err (minmax_normalize s x) (\<lambda>(x', s'). minmax_denormalize s' x') = Inr x"
    using minmax_roundtrip_map [of "Max (set x)" "Min (set x)" x]
    by (simp add: minmax_normalize_def minmax_denormalize_def Let_def attr_def o_def)
qed

theorem normalize_roundtrip_witness:
  "np_std [1, 3] \<noteq> 0
   \<and> (case std_normalize (DataInput_init (0, 0) ''data.npz'' True) [1, 3] of
        (x', s') \<Rightarrow> std_denormalize s' x') = Inr [1, 3]
   \<and> [1, 3 :: real] \<noteq> [] \<and> Max (set [1, 3 :: real]) \<noteq> Min (set [1, 3 :: real])
   \<and> bind_err (minmax_normalize (DataInput_init (0, 0) ''data.npz'' True) [1, 3])
        (\<lambda>(x', s'). minmax_denormalize s' x') = Inr [1, 3]"
proof -
  have h1: "np_std [1, 3] \<noteq> 0"
    by (simp add: np_std_def np_mean_def power2_eq_square)
  have h2: "[1, 3 :: real] \<noteq> [] \<and> Max (set [1, 3 :: real]) \<noteq> Min (set [1, 3 :: real])"
    by simp
  from normalize_roundtrip [of "[1, 3]" "DataInput_init (0, 0) ''data.npz'' True"] h1 h2
  show ?thesis
    by blast
qed


section \<open>Invalid configuration levels\<close>

lemma load_flow_invalid:
  "m \<noteq> 0 \<Longrightarrow> m \<noteq> 1 \<Longrightarrow> m \<noteq> 2 \<Longrightarrow> load_flow m npz_data dataset = Inl ValueError"
  by (simp add: load_flow_def)

lemma load_data_never_returns:
  assumes "(M_dyn s \<noteq> 0 \<and> M_dyn s \<noteq> 1 \<and> M_dyn s \<noteq> 2) \<or> 4 \<le> M_sta s"
  shows "load_data files s \<noteq> Inr r"
  using assms
  by (auto simp: load_data_def bind_err_eq_Inr load_flow_invalid Let_def
      split: option.splits prod.splits if_splits)

text \<open>A valid dynamic-mobility level: the flow array is read, or the read raises.\<close>

lemma load_flow_readable:
  assumes "m = 0 \<or> m = 1 \<or> m = 2" and "flow_readable m npz_data"
  shows "\<exists>d. load_flow m npz_data dataset = Inr d"
  using assms
  by (auto simp: flow_readable_def load_flow_def lookup_def sum_last_axis_def
      take_last_axis_def split: option.splits list.splits)

lemma load_flow_unreadable:
  assumes "m = 0 \<or> m = 1 \<or> m = 2" and "\<not> flow_readable m npz_data"
  shows "\<exists>e. load_flow m npz_data dataset = Inl e \<and> e \<noteq> ValueError"
  using assms
  by (auto simp: flow_readable_def load_flow_def lookup_def sum_last_axis_def
      take_last_axis_def split: option.splits list.splits)

lemma load_adj_present:
  "npz_data key \<noteq> None \<Longrightarrow> \<exists>d. load_adj b key npz_data dataset = Inr d"
  by (auto simp: load_adj_def lookup_def)

lemma load_adj_missing:
  "npz_data key = None \<Longrightarrow> load_adj True key npz_data dataset = Inl KeyError"
  by (simp add: load_adj_def lookup_def)

text \<open>
  The reads and the check after \<open>ems\<close> and \<open>meta\<close>, for a valid dynamic-mobility level
  and a static-adjacency level of at least \<open>4\<close>.
\<close>

lemma load_tail_ValueError_iff:
  assumes "m = 0 \<or> m = 1 \<or> m = 2"
  shows "bind_err (load_flow m npz_data d0) (\<lambda>d1.
         bind_err (load_adj True ''neighbor_adj'' npz_data d1) (\<lambda>d2.
         bind_err (load_adj True ''trans_adj'' npz_data d2) (\<lambda>d3.
         bind_err (load_adj True ''semantic_adj'' npz_data d3) (\<lambda>d4. Inl ValueError)))) =
         Inl ValueError
     \<longleftrightarrow> flow_readable m npz_data \<and> npz_data ''neighbor_adj'' \<noteq> None
         \<and> npz_data ''trans_adj'' \<noteq> None \<and> npz_data ''semantic_adj'' \<noteq> None"
proof (cases "flow_readable m npz_data")
  case False
  then obtain e where "load_flow m npz_data d0 = Inl e" "e \<noteq> ValueError"
    using load_flow_unreadable [OF assms] by blast
  then show ?thesis
    using False by simp
next
  case True
  then obtain d1 where d1: "load_flow m npz_data d0 = Inr d1"
    using load_flow_readable [OF assms] by blast
  show ?thesis
  proof (cases "npz_data ''neighbor_adj'' = None")
    case True
    then show ?thesis
      by (simp add: d1 load_adj_missing)
  next
    case n: False
    then obtain d2 where d2: "load_adj True ''neighbor_adj'' npz_data d1 = Inr d2"
      using load_adj_present by blast
    show ?thesis
    proof (cases "npz_data ''trans_adj'' = None")
      case True
      then show ?thesis
        by (simp add: d1 d2 load_adj_missing)
    next
      case t: False
      then obtain d3 where d3: "load_adj True ''trans_adj'' npz_data d2 = Inr d3"
        using load_adj_present by blast
      show ?thesis
      proof (cases "npz_data ''semantic_adj'' = None")
        case True
        then show ?thesis
          by (simp add: d1 d2 d3 load_adj_missing)
      next
        case m: False
        then obtain d4 where d4: "load_adj True ''semantic_adj'' npz_data d3 = Inr d4"
          using load_adj_present by blast
        show ?thesis
          using \<open>flow_readable m npz_data\<close> n t m by (simp add: d1 d2 d3 d4)
      qed
    qed
  qed
qed

lemma load_data_ValueError_iff:
  assumes "(M_dyn s \<noteq> 0 \<and> M_dyn s \<noteq> 1 \<and> M_dyn s \<noteq> 2) \<or> 4 \<le> M_sta s"
  shows "load_data files s = Inl ValueError \<longleftrightarrow> reads_before_check files s"
proof (cases "files (data_dir s)")
  case None
  then show ?thesis
    by (simp add: load_data_def reads_before_check_def)
next
  case (Some npz_data)
  show ?thesis
  proof (cases "npz_data ''ems'' = None \<or> npz_data ''meta'' = None")
    case True
    then show ?thesis
      using Some
      by (auto simp: load_data_def reads_before_check_def lookup_def Let_def
          split: option.splits prod.splits)
  next
    case False
    then obtain ems meta where e: "npz_data ''ems'' = Some ems"
      and m: "npz_data ''meta'' = Some meta"
      by auto
    show ?thesis
    proof (cases "M_dyn s \<noteq> 0 \<and> M_dyn s \<noteq> 1 \<and> M_dyn s \<noteq> 2")
      case True
      then show ?thesis
        using Some e m
        by (simp add: load_data_def reads_before_check_def lookup_def load_flow_invalid Let_def
            split: prod.splits)
    next
      case False
      then have sta: "4 \<le> M_sta s" and dyn: "M_dyn s = 0 \<or> M_dyn s = 1 \<or> M_dyn s = 2"
        using assms by auto
      show ?thesis
        using Some e m sta dyn
        by (auto simp: load_data_def reads_before_check_def lookup_def Let_def
            load_tail_ValueError_iff [OF dyn] split: prod.splits)
    qed
  qed
qed

text \<open>
  C8. The claim: for every dynamic-mobility level outside \<open>0, 1, 2\<close> and every
  static-adjacency level of at least \<open>4\<close>, data loading raises an invalid-configuration
  error and returns no dataset.

  No dataset is returned, but the error is not always the one of the level. The
  static-adjacency level is checked after the adjacency arrays have been read: for the
  level \<open>4\<close> (dynamic level \<open>0\<close>) and an archive that holds the series and the metadata
  alone, the read of \<open>neighbor_adj\<close> raises KeyError before the check is reached.
\<close>

theorem load_data_missing_array_first:
  "M_sta (DataInput_init (0, 4) ''small.npz'' True) = 4
   \<and> load_data demo_files (DataInput_init (0, 4) ''small.npz'' True) = Inl KeyError"
  by (simp add: load_data_def DataInput_init_def demo_files_def small_archive_def lookup_def
      load_flow_def load_adj_def std_normalize_def Let_def)

text \<open>
  C8 as the code has it: for every dynamic-mobility level outside \<open>0, 1, 2\<close> and every
  static-adjacency level of at least \<open>4\<close>, \<open>load_data\<close> raises and returns no dataset,
  whatever the files hold; and the exception is the ValueError of the invalid level
  exactly when every read before the failing check succeeds.
\<close>

theorem load_data_invalid_level:
  "(M_dyn s \<noteq> 0 \<and> M_dyn s \<noteq> 1 \<and> M_dyn s \<noteq> 2) \<or> 4 \<le> M_sta s \<longrightarrow>
      isl (load_data files s)
      \<and> (load_data files s = Inl ValueError \<longleftrightarrow> reads_before_check files s)"
proof (intro impI conjI)
  assume a: "(M_dyn s \<noteq> 0 \<and> M_dyn s \<noteq> 1 \<and> M_dyn s \<noteq> 2) \<or> 4 \<le> M_sta s"
  show "isl (load_data files s)"
  proof (cases "load_data files s")
    case (Inl e)
    then show ?thesis by simp
  next
    case (Inr r)
    then show ?thesis
      using load_data_never_returns [OF a, of files r] by simp
  qed
  show "load_data files s = Inl ValueError \<longleftrightarrow> reads_before_check files s"
    by (rule load_data_ValueError_iff [OF a])
qed

theorem load_data_invalid_level_witness:
  "M_dyn (DataInput_init (3, 0) ''small.npz'' True) \<noteq> 0
   \<and> M_dyn (DataInput_init (3, 0) ''small.npz'' True) \<noteq> 1
   \<and> M_dyn (DataInput_init (3, 0) ''small.npz'' True) \<noteq> 2
   \<and> reads_before_check demo_files (DataInput_init (3, 0) ''small.npz'' True)
   \<and> isl (load_data demo_files (DataInput_init (3, 0) ''small.npz'' True))
   \<and> load_data demo_files (DataInput_init (3, 0) ''small.npz'' True) = Inl ValueError
   \<and> 4 \<le> M_sta (DataInput_init (2, 4) ''data.npz'' True)
   \<and> reads_before_check demo_files (DataInput_init (2, 4) ''data.npz'' True)
   \<and> isl (load_data demo_files (DataInput_init (2, 4) ''data.npz'' True))
   \<and> load_data demo_files (DataInput_init (2, 4) ''data.npz'' True) = Inl ValueError
   \<and> 4 \<le> M_sta (DataInput_init (2, 4) ''small.npz'' True)
   \<and> \<not> reads_before_check demo_files (DataInput_init (2, 4) ''small.npz'' True)
   \<and> isl (load_data demo_files (DataInput_init (2, 4) ''small.npz'' True))
   \<and> load_data demo_files (DataInput_init (2, 4) ''small.npz'' True) \<noteq> Inl ValueError"
proof -
  have a: "M_dyn (DataInput_init (3, 0) ''small.npz'' True) \<noteq> 0
      \<and> M_dyn (DataInput_init (3, 0) ''small.npz'' True) \<noteq> 1
      \<and> M_dyn (DataInput_init (3, 0) ''small.npz'' True) \<noteq> 2"
    by (simp add: DataInput_init_def)
  have b: "reads_before_check demo_files (DataInput_init (3, 0) ''small.npz'' True)"
    by (simp add: reads_before_check_def DataInput_init_def demo_files_def small_archive_def)
  have c: "4 \<le> M_sta (DataInput_init (2, 4) ''data.npz'' True)"
    "4 \<le> M_sta (DataInput_init (2, 4) ''small.npz'' True)"
    by (simp_all add: DataInput_init_def)
  have d: "reads_before_check demo_files (DataInput_init (2, 4) ''data.npz'' True)"
    by (simp add: reads_before_check_def flow_readable_def DataInput_init_def demo_files_def
        demo_archive_def demo_array_def)
  have e: "\<not> reads_before_check demo_files (DataInput_init (2, 4) ''small.npz'' True)"
    by (simp add: reads_before_check_def flow_readable_def DataInput_init_def demo_files_def
        small_archive_def)
  from load_data_invalid_level [of "DataInput_init (3, 0) ''small.npz'' True" demo_files]
    load_data_invalid_level [of "DataInput_init (2, 4) ''data.npz'' True" demo_files]
    load_data_invalid_level [of "DataInput_init (2, 4) ''small.npz'' True" demo_files]
    a b c d e
  show ?thesis
    by blast
qed


section \<open>The sample store\<close>

lemma length_join_rows: "length b = length a \<Longrightarrow> length (join_rows a b) = length a"
  by (simp add: join_rows_def)

lemma length_foldl_join_rows:
  "list_all (\<lambda>b. length b = length a) bs \<Longrightarrow> length (foldl join_rows a bs) = length a"
  by (induction bs arbitrary: a) (simp_all add: length_join_rows)

lemma concatenate_axis1_length:
  assumes "concatenate_axis1 arrays = Inr xs" and "list_all (\<lambda>a. length (rows a) = M) arrays"
  shows "length xs = M"
proof (cases arrays)
  case Nil
  then show ?thesis
    using assms by (simp add: concatenate_axis1_def)
next
  case (Cons a rest)
  then have "xs = foldl join_rows (rows a) (map rows rest)"
    using assms(1) by (simp add: concatenate_axis1_def split: if_splits)
  moreover have "list_all (\<lambda>b. length b = length (rows a)) (map rows rest)"
    using assms(2) Cons by (simp add: list_all_iff)
  ultimately show ?thesis
    using assms(2) Cons by (simp add: length_foldl_join_rows)
qed

lemma list_all_filter: "list_all P xs \<Longrightarrow> list_all P (filter Q xs)"
  by (simp add: list_all_iff)

text \<open>
  C9. The claim: \<open>length()\<close> is the configured sample count of the split, and \<open>get(i)\<close>
  succeeds for \<open>0 \<le> i < length()\<close> and fails for every other \<open>i\<close>.

  \<open>__getitem__\<close> has no check of its own; it indexes the stored tensors. On the train
  split of two samples (out of three windowed samples) \<open>get(-1)\<close> succeeds and returns
  the last sample of the split. And the slices of \<open>prepare_xy\<close> are cut off at the end
  of the windowed arrays: the test split of the same plan starts at \<open>3\<close>, its
  \<open>length()\<close> is \<open>2\<close>, it stores no sample, and \<open>get(0)\<close> raises IndexError.
\<close>

theorem getitem_negative_index_succeeds:
  "bind_err (EMSDataset_init demo_feats [1, 2, 3 :: nat] 1 1 1 0 ''train'' demo_plan 0) len_dataset
     = Inr 2
   \<and> bind_err (EMSDataset_init demo_feats [1, 2, 3 :: nat] 1 1 1 0 ''train'' demo_plan 0)
        (\<lambda>ds. getitem ds (- 1)) = Inr ([1, 1], [1, 1], Some [7, 7], 2)
   \<and> bind_err (EMSDataset_init demo_feats [1, 2, 3 :: nat] 1 1 1 0 ''test'' demo_plan 0) len_dataset
     = Inr 2
   \<and> bind_err (EMSDataset_init demo_feats [1, 2, 3 :: nat] 1 1 1 0 ''test'' demo_plan 0)
        (\<lambda>ds. getitem ds 0) = Inl IndexError"
  by code_simp

text \<open>
  C9 as the code has it. Let the dataset be built from windowed arrays and targets of
  \<open>M\<close> samples each, with the flow array, if there is one, holding one snapshot per
  timestep of the day, and let the split lie within the samples: its start is not
  negative and its start plus its configured count \<open>n \<ge> 0\<close> is at most \<open>M\<close>. Then
  \<open>length()\<close> is \<open>n\<close>, and \<open>get(i)\<close> succeeds exactly for \<open>-n \<le> i < n\<close>.
\<close>

theorem getitem_succeeds_iff:
  assumes init: "EMSDataset_init inp outp day_ts s_len d_len w_len md ml s0 = Inr ds"
    and al: "rows_aligned inp outp M"
    and fl: "flow_cycle_ok inp day_ts"
    and n: "ml md = Some n"
    and rng: "0 \<le> ds_start_idx ds" "0 \<le> n" "ds_start_idx ds + n \<le> int M"
  shows "len_dataset ds = Inr n \<and> (isl (getitem ds i) \<longleftrightarrow> \<not> (- n \<le> i \<and> i < n))"
proof -
  from init obtain s x y where p: "prepare_xy md ml s0 inp outp = Inr (s, x, y)"
    and ds: "ds = \<lparr>ds_serial_len = s_len, ds_daily_len = d_len, ds_weekly_len = w_len,
                  rho = day_ts, mode = md, ds_mode_len = ml, ds_start_idx = s, inputs = x,
                  outputs = y\<rparr>"
    by (auto simp: EMSDataset_init_def bind_err_eq_Inr)
  from p obtain xs ms where
    cx: "concatenate_axis1 (filter (\<lambda>a. ndim a \<noteq> 2) [weekly inp, daily inp, serial inp]) = Inr xs"
    and cm: "concatenate_axis1
               (filter (\<lambda>a. ndim a \<noteq> 2) [weekly_meta inp, daily_meta inp, serial_meta inp]) = Inr ms"
    and x: "x = \<lparr>x_seq = py_slice xs s (s + n), meta_seq = py_slice ms s (s + n),
                 x_flow = flow inp\<rparr>"
    and y: "y = py_slice outp s (s + n)"
    using n by (auto simp: prepare_xy_def bind_err_eq_Inr Let_def lookup_def)
  have lx: "length xs = M"
    using concatenate_axis1_length [OF cx] al list_all_filter
    unfolding rows_aligned_def by blast
  have lm: "length ms = M"
    using concatenate_axis1_length [OF cm] al list_all_filter
    unfolding rows_aligned_def by blast
  have lo: "length outp = M"
    using al by (simp add: rows_aligned_def)
  have s: "0 \<le> s" "s + n \<le> int M"
    using rng ds by simp_all
  have fields: "inputs ds = x" "outputs ds = y" "rho ds = day_ts"
    by (simp_all add: ds)
  have len: "length (x_seq x) = nat n" "length (meta_seq x) = nat n" "length y = nat n"
    using s rng(2) lx lm lo by (simp_all add: x y length_py_slice)
  have "\<exists>P. (case x_flow (inputs ds) of
          Some fl \<Rightarrow> bind_err (timestamp_query ds fl i) (\<lambda>P. Inr (Some P))
        | None \<Rightarrow> Inr None) = Inr P"
  proof (cases "flow inp")
    case None
    then show ?thesis
      by (simp add: fields x)
  next
    case (Some fl0)
    then have "0 < rho ds" "int (length fl0) = rho ds"
      using fl by (simp_all add: flow_cycle_ok_def fields)
    from timestamp_query_succeeds [OF this] obtain P where "timestamp_query ds fl0 i = Inr P"
      by blast
    then show ?thesis
      using Some by (simp add: fields x)
  qed
  then obtain P where P: "(case x_flow (inputs ds) of
          Some fl \<Rightarrow> bind_err (timestamp_query ds fl i) (\<lambda>P. Inr (Some P))
        | None \<Rightarrow> Inr None) = Inr P"
    by blast
  have "isl (getitem ds i) \<longleftrightarrow> \<not> (- n \<le> i \<and> i < n)"
  proof (cases "- n \<le> i \<and> i < n")
    case True
    then have "\<not> isl (np_index (x_seq x) i)" "\<not> isl (np_index (meta_seq x) i)"
      "\<not> isl (np_index y i)"
      using len rng(2) by (simp_all add: np_index_isl)
    then obtain a b c where "np_index (x_seq x) i = Inr a" "np_index (meta_seq x) i = Inr b"
      "np_index y i = Inr c"
      by (metis sum.collapse(2))
    then show ?thesis
      using True P by (simp add: getitem_def fields)
  next
    case False
    then have "isl (np_index (x_seq x) i)"
      using len rng(2) by (simp add: np_index_isl)
    then obtain e where "np_index (x_seq x) i = Inl e"
      by (metis sum.collapse(1))
    then show ?thesis
      using False P by (simp add: getitem_def fields)
  qed
  moreover have "len_dataset ds = Inr n"
    using n by (simp add: len_dataset_def lookup_def ds)
  ultimately show ?thesis
    by simp
qed

theorem getitem_succeeds_iff_witness:
  "EMSDataset_init demo_feats [1, 2, 3] 1 1 1 0 ''train'' demo_plan 0 = Inr demo_store
   \<and> rows_aligned demo_feats [1, 2, 3 :: nat] 3
   \<and> flow_cycle_ok demo_feats 1
   \<and> demo_plan ''train'' = Some 2
   \<and> 0 \<le> ds_start_idx demo_store \<and> ds_start_idx demo_store + 2 \<le> int 3
   \<and> len_dataset demo_store = Inr 2
   \<and> \<not> isl (getitem demo_store 1)
   \<and> isl (getitem demo_store 2)"
proof -
  have h1: "EMSDataset_init demo_feats [1, 2, 3] 1 1 1 0 ''train'' demo_plan 0 = Inr demo_store"
    by (simp add: EMSDataset_init_def prepare_xy_def split_start_def demo_feats_def demo_plan_def
        demo_store_def concatenate_axis1_def join_rows_def lookup_def py_slice_def slice_bound_def)
  have h2: "rows_aligned demo_feats [1, 2, 3 :: nat] 3"
    by (simp add: rows_aligned_def demo_feats_def)
  have h3: "flow_cycle_ok demo_feats 1"
    by (simp add: flow_cycle_ok_def demo_feats_def)
  have h4: "demo_plan ''train'' = Some 2"
    by (simp add: demo_plan_def)
  have h5: "0 \<le> ds_start_idx demo_store" "(0::int) \<le> 2" "ds_start_idx demo_store + 2 \<le> int 3"
    by (simp_all add: demo_store_def)
  from getitem_succeeds_iff [OF h1 h2 h3 h4 h5, of 1] getitem_succeeds_iff [OF h1 h2 h3 h4 h5, of 2]
  have "len_dataset demo_store = Inr 2 \<and> \<not> isl (getitem demo_store 1) \<and> isl (getitem demo_store 2)"
    by simp
  with h1 h2 h3 h4 h5 show ?thesis
    by blast
qed


section \<open>The evaluation pass\<close>

lemma load_data_keeps_stats:
  assumes "\<not> norm_opt s" and "load_data files s = Inr (d, s')"
  shows "s' = s"
  using assms
  by (auto simp: load_data_def bind_err_eq_Inr Let_def split: option.splits if_splits)

lemma minmax_normalize_keeps_std:
  assumes "minmax_normalize s x = Inr (x', s')"
  shows "stat_std s' = stat_std s \<and> stat_mean s' = stat_mean s"
  using assms by (auto simp: minmax_normalize_def Let_def split: if_splits)

lemma test_mode_no_stats:
  assumes "stat_std s = None \<or> stat_mean s = None"
    and "reaches_denormalize model_name forward y_true_of params data_loader md results"
  shows "test_mode s model_name forward y_true_of params data_loader md = Inl AttributeError"
proof -
  obtain batches where b: "data_loader md = Some batches" "batches \<noteq> []"
    "collect (test_batch model_name forward y_true_of params) batches = Inr results"
    using assms(2) by (auto simp: reaches_denormalize_def split: option.splits)
  have "results \<noteq> []"
    using collect_length [OF b(3)] b(2) by auto
  moreover have "std_denormalize s x = Inl AttributeError" for x
    using assms(1) by (auto simp: std_denormalize_def attr_def split: option.splits)
  ultimately show ?thesis
    using b by (simp add: test_mode_def lookup_def concatenate_axis0_def)
qed

lemma test_mode_with_stats:
  assumes "stat_std s = Some sd" and "stat_mean s = Some mu"
    and "reaches_denormalize model_name forward y_true_of params data_loader md results"
  shows "test_mode s model_name forward y_true_of params data_loader md =
     Inr (md,
          MSE (map (\<lambda>v. v * sd + mu) (concat (map snd results)))
              (map (\<lambda>v. v * sd + mu) (concat (map fst results))),
          RMSE (map (\<lambda>v. v * sd + mu) (concat (map snd results)))
               (map (\<lambda>v. v * sd + mu) (concat (map fst results))),
          MAE (map (\<lambda>v. v * sd + mu) (concat (map snd results)))
              (map (\<lambda>v. v * sd + mu) (concat (map fst results))),
          MAPE (map (\<lambda>v. v * sd + mu) (concat (map snd results)))
               (map (\<lambda>v. v * sd + mu) (concat (map fst results))) * 100)"
proof -
  obtain batches where b: "data_loader md = Some batches" "batches \<noteq> []"
    "collect (test_batch model_name forward y_true_of params) batches = Inr results"
    using assms(3) by (auto simp: reaches_denormalize_def split: option.splits)
  have "results \<noteq> []"
    using collect_length [OF b(3)] b(2) by auto
  moreover have "std_denormalize s x = Inr (map (\<lambda>v. v * sd + mu) x)" for x
    using assms(1,2) by (simp add: std_denormalize_def attr_def)
  ultimately show ?thesis
    using b by (simp add: test_mode_def lookup_def concatenate_axis0_def)
qed

lemma collect_map_Inr:
  "(\<And>x. x \<in> set xs \<Longrightarrow> f x = Inr (g x)) \<Longrightarrow> collect f xs = Inr (map g xs)"
  by (induction xs) simp_all

lemma test_with_stats:
  assumes "stat_std s = Some sd" and "stat_mean s = Some mu"
    and "list_all (\<lambda>md. reaches_denormalize model_name forward y_true_of params data_loader md
                         (results_of md)) all_modes"
  shows "test s model_name forward y_true_of (Some (epoch, params)) data_loader all_modes =
     Inr (map (\<lambda>md.
            (md,
             MSE (map (\<lambda>v. v * sd + mu) (concat (map snd (results_of md))))
                 (map (\<lambda>v. v * sd + mu) (concat (map fst (results_of md)))),
             RMSE (map (\<lambda>v. v * sd + mu) (concat (map snd (results_of md))))
                  (map (\<lambda>v. v * sd + mu) (concat (map fst (results_of md)))),
             MAE (map (\<lambda>v. v * sd + mu) (concat (map snd (results_of md))))
                 (map (\<lambda>v. v * sd + mu) (concat (map fst (results_of md)))),
             MAPE (map (\<lambda>v. v * sd + mu) (concat (map snd (results_of md))))
                  (map (\<lambda>v. v * sd + mu) (concat (map fst (results_of md)))) * 100))
          all_modes)"
proof -
  have "test_mode s model_name forward y_true_of params data_loader md =
     Inr (md,
          MSE (map (\<lambda>v. v * sd + mu) (concat (map snd (results_of md))))
              (map (\<lambda>v. v * sd + mu) (concat (map fst (results_of md)))),
          RMSE (map (\<lambda>v. v * sd + mu) (concat (map snd (results_of md))))
               (map (\<lambda>v. v * sd + mu) (concat (map fst (results_of md)))),
          MAE (map (\<lambda>v. v * sd + mu) (concat (map snd (results_of md))))
              (map (\<lambda>v. v * sd + mu) (concat (map fst (results_of md)))),
          MAPE (map (\<lambda>v. v * sd + mu) (concat (map snd (results_of md))))
               (map (\<lambda>v. v * sd + mu) (concat (map fst (results_of md)))) * 100)"
    if "md \<in> set all_modes" for md
  proof -
    have "reaches_denormalize model_name forward y_true_of params data_loader md (results_of md)"
      using assms(3) that by (simp add: list_all_iff)
    from test_mode_with_stats [OF assms(1,2) this] show ?thesis .
  qed
  then show ?thesis
    unfolding test_def by (simp add: collect_map_Inr)
qed

text \<open>
  C10. The evaluation pass applies the inverse of the standardization, \<open>x * std + mean\<close>,
  to the concatenated targets and predictions, whatever normalization was configured.
  When the evaluation of the first mode reaches the denormalize call (the loader has the
  mode with at least one batch and the model answered every batch) and the instance
  comes from \<open>load_data\<close> with \<open>norm_opt = False\<close> or from \<open>minmax_normalize\<close>, no
  standardization statistics are stored and the pass ends in AttributeError instead of
  metrics. When the statistics \<open>std\<close> and \<open>mean\<close> are stored, the four metrics of a
  mode are those of \<open>x * std + mean\<close> applied to predictions and targets, and the pass
  over modes that all reach the denormalize call returns these metrics, mode by mode.
\<close>

theorem test_applies_std_denormalize:
  "(reaches_denormalize model_name forward y_true_of params data_loader md results
      \<and> (load_data files (DataInput_init M_adj dir False) = Inr (d, s)
         \<or> minmax_normalize (DataInput_init M_adj dir opt) x = Inr (x', s)) \<longrightarrow>
      test s model_name forward y_true_of (Some (epoch, params)) data_loader (md # modes)
        = Inl AttributeError)
   \<and> (reaches_denormalize model_name forward y_true_of params data_loader md results
        \<and> stat_std s = Some sd \<and> stat_mean s = Some mu \<longrightarrow>
      test_mode s model_name forward y_true_of params data_loader md =
        Inr (md,
             MSE (map (\<lambda>v. v * sd + mu) (concat (map snd results)))
                 (map (\<lambda>v. v * sd + mu) (concat (map fst results))),
             RMSE (map (\<lambda>v. v * sd + mu) (concat (map snd results)))
                  (map (\<lambda>v. v * sd + mu) (concat (map fst results))),
             MAE (map (\<lambda>v. v * sd + mu) (concat (map snd results)))
                 (map (\<lambda>v. v * sd + mu) (concat (map fst results))),
             MAPE (map (\<lambda>v. v * sd + mu) (concat (map snd results)))
                  (map (\<lambda>v. v * sd + mu) (concat (map fst results))) * 100))
   \<and> (list_all (\<lambda>md. reaches_denormalize model_name forward y_true_of params data_loader md
                         (results_of md)) all_modes
        \<and> stat_std s = Some sd \<and> stat_mean s = Some mu \<longrightarrow>
      test s model_name forward y_true_of (Some (epoch, params)) data_loader all_modes =
        Inr (map (\<lambda>md.
               (md,
                MSE (map (\<lambda>v. v * sd + mu) (concat (map snd (results_of md))))
                    (map (\<lambda>v. v * sd + mu) (concat (map fst (results_of md)))),
                RMSE (map (\<lambda>v. v * sd + mu) (concat (map snd (results_of md))))
                     (map (\<lambda>v. v * sd + mu) (concat (map fst (results_of md)))),
                MAE (map (\<lambda>v. v * sd + mu) (concat (map snd (results_of md))))
                    (map (\<lambda>v. v * sd + mu) (concat (map fst (results_of md)))),
                MAPE (map (\<lambda>v. v * sd + mu) (concat (map snd (results_of md))))
                     (map (\<lambda>v. v * sd + mu) (concat (map fst (results_of md)))) * 100))
             all_modes))"
proof (intro conjI impI)
  assume a: "reaches_denormalize model_name forward y_true_of params data_loader md results
      \<and> (load_data files (DataInput_init M_adj dir False) = Inr (d, s)
         \<or> minmax_normalize (DataInput_init M_adj dir opt) x = Inr (x', s))"
  have "stat_std s = None"
  proof -
    from a consider "load_data files (DataInput_init M_adj dir False) = Inr (d, s)"
      | "minmax_normalize (DataInput_init M_adj dir opt) x = Inr (x', s)"
      by blast
    then show ?thesis
    proof cases
      case 1
      have "\<not> norm_opt (DataInput_init M_adj dir False)"
        by (simp add: DataInput_init_def)
      from load_data_keeps_stats [OF this 1] show ?thesis
        by (simp add: DataInput_init_def)
    next
      case 2
      from minmax_normalize_keeps_std [OF 2] show ?thesis
        by (simp add: DataInput_init_def)
    qed
  qed
  then have "test_mode s model_name forward y_true_of params data_loader md = Inl AttributeError"
    using a test_mode_no_stats [of s model_name forward y_true_of params data_loader md results]
    by simp
  then show "test s model_name forward y_true_of (Some (epoch, params)) data_loader (md # modes)
        = Inl AttributeError"
    by (simp add: test_def)
next
  assume "reaches_denormalize model_name forward y_true_of params data_loader md results
        \<and> stat_std s = Some sd \<and> stat_mean s = Some mu"
  then show "test_mode s model_name forward y_true_of params data_loader md =
        Inr (md,
             MSE (map (\<lambda>v. v * sd + mu) (concat (map snd results)))
                 (map (\<lambda>v. v * sd + mu) (concat (map fst results))),
             RMSE (map (\<lambda>v. v * sd + mu) (concat (map snd results)))
                  (map (\<lambda>v. v * sd + mu) (concat (map fst results))),
             MAE (map (\<lambda>v. v * sd + mu) (concat (map snd results)))
                 (map (\<lambda>v. v * sd + mu) (concat (map fst results))),
             MAPE (map (\<lambda>v. v * sd + mu) (concat (map snd results)))
                  (map (\<lambda>v. v * sd + mu) (concat (map fst results))) * 100)"
    using test_mode_with_stats [of s sd mu model_name forward y_true_of params data_loader md results]
    by simp
next
  assume "list_all (\<lambda>md. reaches_denormalize model_name forward y_true_of params data_loader md
                         (results_of md)) all_modes
        \<and> stat_std s = Some sd \<and> stat_mean s = Some mu"
  then show "test s model_name forward y_true_of (Some (epoch, params)) data_loader all_modes =
        Inr (map (\<lambda>md.
               (md,
                MSE (map (\<lambda>v. v * sd + mu) (concat (map snd (results_of md))))
                    (map (\<lambda>v. v * sd + mu) (concat (map fst (results_of md)))),
                RMSE (map (\<lambda>v. v * sd + mu) (concat (map snd (results_of md))))
                     (map (\<lambda>v. v * sd + mu) (concat (map fst (results_of md)))),
                MAE (map (\<lambda>v. v * sd + mu) (concat (map snd (results_of md))))
                    (map (\<lambda>v. v * sd + mu) (concat (map fst (results_of md)))),
                MAPE (map (\<lambda>v. v * sd + mu) (concat (map snd (results_of md))))
                     (map (\<lambda>v. v * sd + mu) (concat (map fst (results_of md)))) * 100))
             all_modes)"
    using test_with_stats [of s sd mu model_name forward y_true_of params data_loader results_of
        all_modes epoch]
    by simp
qed

theorem test_applies_std_denormalize_witness:
  "reaches_denormalize ''STIAM_Net'' demo_forward fst 0 demo_loader ''test'' [([0, 1], [1, 1])]
   \<and> load_data demo_files (DataInput_init (0, 0) ''data.npz'' False) =
       Inr ([''ems'' \<mapsto> demo_array, ''meta'' \<mapsto> demo_array],
            DataInput_init (0, 0) ''data.npz'' False)
   \<and> test (DataInput_init (0, 0) ''data.npz'' False) ''STIAM_Net'' demo_forward fst
        (Some (1, 0)) demo_loader [''test''] = Inl AttributeError
   \<and> minmax_normalize (DataInput_init (0, 0) ''data.npz'' True) [1, 3] =
       Inr ([- 1, 1], (DataInput_init (0, 0) ''data.npz'' True)\<lparr>stat_max := Some 3, stat_min := Some 1\<rparr>)
   \<and> test ((DataInput_init (0, 0) ''data.npz'' True)\<lparr>stat_max := Some 3, stat_min := Some 1\<rparr>)
        ''STIAM_Net'' demo_forward fst (Some (1, 0)) demo_loader [''test''] = Inl AttributeError
   \<and> stat_std (snd (std_normalize (DataInput_init (0, 0) ''data.npz'' True) [1, 3])) = Some 1
   \<and> stat_mean (snd (std_normalize (DataInput_init (0, 0) ''data.npz'' True) [1, 3])) = Some 2
   \<and> test_mode (snd (std_normalize (DataInput_init (0, 0) ''data.npz'' True) [1, 3]))
        ''STIAM_Net'' demo_forward fst 0 demo_loader ''test'' =
       Inr (''test'', MSE [3, 3] [2, 3], RMSE [3, 3] [2, 3], MAE [3, 3] [2, 3],
            MAPE [3, 3] [2, 3] * 100)
   \<and> list_all (\<lambda>md. reaches_denormalize ''STIAM_Net'' demo_forward fst 0 demo_loader md
                        [([0, 1], [1, 1])]) [''test'']
   \<and> test (snd (std_normalize (DataInput_init (0, 0) ''data.npz'' True) [1, 3]))
        ''STIAM_Net'' demo_forward fst (Some (1, 0)) demo_loader [''test''] =
       Inr [(''test'', MSE [3, 3] [2, 3], RMSE [3, 3] [2, 3], MAE [3, 3] [2, 3],
             MAPE [3, 3] [2, 3] * 100)]"
proof -
  let ?s0 = "DataInput_init (0, 0) ''data.npz'' False"
  let ?s1 = "DataInput_init (0, 0) ''data.npz'' True"
  let ?mm = "?s1\<lparr>stat_max := Some 3, stat_min := Some 1\<rparr>"
  let ?sn = "snd (std_normalize ?s1 [1, 3])"
  have h1: "reaches_denormalize ''STIAM_Net'' demo_forward fst 0 demo_loader ''test''
      [([0, 1], [1, 1])]"
    by (simp add: reaches_denormalize_def demo_loader_def test_batch_def demo_forward_def)
  have h2: "load_data demo_files ?s0 =
      Inr ([''ems'' \<mapsto> demo_array, ''meta'' \<mapsto> demo_array], ?s0)"
    by (simp add: load_data_def DataInput_init_def demo_files_def demo_archive_def lookup_def
        load_flow_def load_adj_def)
  have h3: "minmax_normalize ?s1 [1, 3] = Inr ([- 1, 1], ?mm)"
    by (simp add: minmax_normalize_def Let_def)
  have h4: "stat_std ?sn = Some 1" "stat_mean ?sn = Some 2"
    by (simp_all add: std_normalize_def Let_def np_std_def np_mean_def power2_eq_square)
  have h5: "list_all (\<lambda>md. reaches_denormalize ''STIAM_Net'' demo_forward fst 0 demo_loader md
                        [([0, 1], [1, 1])]) [''test'']"
    using h1 by simp
  from test_applies_std_denormalize
    [where model_name = "''STIAM_Net''" and forward = demo_forward and y_true_of = fst
      and params = 0 and data_loader = demo_loader and md = "''test''"
      and results = "[([0, 1], [1, 1])]" and files = demo_files and M_adj = "(0, 0)"
      and dir = "''data.npz''" and d = "[''ems'' \<mapsto> demo_array, ''meta'' \<mapsto> demo_array]"
      and s = ?s0 and epoch = 1 and modes = "[]"]
    h1 h2
  have r1: "test ?s0 ''STIAM_Net'' demo_forward fst (Some (1, 0)) demo_loader [''test'']
      = Inl AttributeError"
    by blast
  from test_applies_std_denormalize
    [where model_name = "''STIAM_Net''" and forward = demo_forward and y_true_of = fst
      and params = 0 and data_loader = demo_loader and md = "''test''"
      and results = "[([0, 1], [1, 1])]" and M_adj = "(0, 0)"
      and dir = "''data.npz''" and opt = True and x = "[1, 3]" and x' = "[- 1, 1]"
      and s = ?mm and epoch = 1 and modes = "[]"]
    h1 h3
  have r2: "test ?mm ''STIAM_Net'' demo_forward fst (Some (1, 0)) demo_loader [''test'']
      = Inl AttributeError"
    by blast
  from test_applies_std_denormalize
    [where model_name = "''STIAM_Net''" and forward = demo_forward and y_true_of = fst
      and params = 0 and data_loader = demo_loader and md = "''test''"
      and results = "[([0, 1], [1, 1])]" and s = ?sn and sd = 1 and mu = 2
      and results_of = "\<lambda>md. [([0, 1], [1, 1])]" and all_modes = "[''test'']" and epoch = 1]
    h1 h4 h5
  have r3: "test_mode ?sn ''STIAM_Net'' demo_forward fst 0 demo_loader ''test'' =
       Inr (''test'', MSE [3, 3] [2, 3], RMSE [3, 3] [2, 3], MAE [3, 3] [2, 3],
            MAPE [3, 3] [2, 3] * 100)"
    and r4: "test ?sn ''STIAM_Net'' demo_forward fst (Some (1, 0)) demo_loader [''test''] =
       Inr [(''test'', MSE [3, 3] [2, 3], RMSE [3, 3] [2, 3], MAE [3, 3] [2, 3],
             MAPE [3, 3] [2, 3] * 100)]"
    by simp_all
  from h1 h2 h3 h4 h5 r1 r2 r3 r4 show ?thesis
    by blast
qed

end
